theory Spec2Isabelle
  imports Complex_Main "HOL-Library.Sublist"
begin

section \<open>Strings, characters and numbers of the Python source\<close>

text \<open>
  A page body is a \<^typ>\<open>string\<close>: a list of 8-bit characters read as the code points
  0..255, so the pound sign of the price patterns is \<open>CHR 0xA3\<close>. On these code points
  the Unicode tables used by \<open>str.lower\<close> and by the \<open>re\<close> module are small enough to
  be written out: the cased letters are A-Z and the Latin-1 capitals, the decimal digits
  are 0-9, and white space is the ASCII white space with the separators 0x1C-0x1F, 0x85
  and 0xA0.

  A Python \<open>float\<close> is modelled by a \<^typ>\<open>real\<close>: the code compares prices and subtracts
  them, and the properties below rest on the comparisons and on the order of the
  branches, not on rounding. A \<open>datetime\<close> is a \<^typ>\<open>real\<close> number of seconds.
\<close>

definition py_lower :: "char \<Rightarrow> char" where
  "py_lower c =
     (let n = (of_char c :: nat)
      in if (65 \<le> n \<and> n \<le> 90) \<or> (192 \<le> n \<and> n \<le> 222 \<and> n \<noteq> 215)
         then char_of (n + 32) else c)"


definition is_digit :: "char \<Rightarrow> bool" where
  "is_digit c = (48 \<le> (of_char c :: nat) \<and> (of_char c :: nat) \<le> 57)"

definition is_space :: "char \<Rightarrow> bool" where
  "is_space c =
     (let n = (of_char c :: nat)
      in (9 \<le> n \<and> n \<le> 13) \<or> (28 \<le> n \<and> n \<le> 32) \<or> n = 133 \<or> n = 160)"



text \<open>\<open>str(n)\<close> for an integer.\<close>

definition digit_char :: "nat \<Rightarrow> char" where
  "digit_char d = char_of (48 + d)"

function str_nat :: "nat \<Rightarrow> string" where
  "str_nat n = (if n < 10 then [digit_char n] else str_nat (n div 10) @ [digit_char (n mod 10)])"
  by pat_completeness auto
termination
  by (relation "measure id") auto

declare str_nat.simps [simp del]

definition str_int :: "int \<Rightarrow> string" where
  "str_int i = (if i < 0 then CHR ''-'' # str_nat (nat (- i)) else str_nat (nat i))"

text \<open>
  \<open>f"{x:.2f}"\<close>: the sign, the integer part and two decimals of \<open>x\<close> rounded to the
  nearest hundredth, a tie going to the even neighbour.
\<close>

definition round_half_even :: "real \<Rightarrow> int" where
  "round_half_even x =
     (let f = \<lfloor>x\<rfloor>; r = x - of_int f
      in if r < 1 / 2 then f else if 1 / 2 < r then f + 1 else if even f then f else f + 1)"

definition fmt2 :: "real \<Rightarrow> string" where
  "fmt2 x =
     (let h = nat (round_half_even (\<bar>x\<bar> * 100))
      in (if x < 0 then ''-'' else '''') @ str_nat (h div 100) @ ''.''
           @ [digit_char (h mod 100 div 10), digit_char (h mod 10)])"




section \<open>The regular expressions of the scraper\<close>

text \<open>
  The patterns of \<open>scraper.py\<close> are sequences of single characters, character classes,
  greedy repetitions of a class and at most one capture group. \<open>Lit c\<close> is the
  character \<open>c\<close>, \<open>NotLit c\<close> the class \<open>[^c]\<close> (only used with the uncased \<open>"\<close> and
  \<open>>\<close>), \<open>Digit\<close> is \<open>\d\<close>, \<open>DigitOr c\<close> is \<open>[\dc]\<close> and \<open>Space\<close> is \<open>\s\<close>.
  \<open>X+\<close> is written \<open>One X, Star X\<close>.
\<close>

datatype cclass = Lit char | NotLit char | Digit | DigitOr char | Space

datatype item = One cclass | Star cclass | Opt cclass | GOpen | GClose

type_synonym regex = "item list"

text \<open>The first argument is the flag \<open>re.IGNORECASE\<close>.\<close>

fun cmatch :: "bool \<Rightarrow> cclass \<Rightarrow> char \<Rightarrow> bool" where
  "cmatch ic (Lit c) x = (if ic then py_lower x = py_lower c else x = c)"
| "cmatch ic (NotLit c) x = (x \<noteq> c)"
| "cmatch ic Digit x = is_digit x"
| "cmatch ic (DigitOr c) x = (is_digit x \<or> x = c)"
| "cmatch ic Space x = is_space x"

text \<open>
  \<open>rmatch ic r s g acc\<close> matches \<open>r\<close> at the start of \<open>s\<close> the way the backtracking
  matcher of \<open>re\<close> does: a repetition first takes as many characters as it can and gives
  them back one at a time. \<open>g\<close> tells whether the capture group is open and \<open>acc\<close> holds
  its text so far, reversed. The result is the text of group 1 of the first match found
  (empty for a pattern without a group).
\<close>

fun rmatch :: "bool \<Rightarrow> regex \<Rightarrow> string \<Rightarrow> bool \<Rightarrow> string \<Rightarrow> string option" where
  "rmatch ic [] s g acc = Some (rev acc)"
| "rmatch ic (GOpen # r) s g acc = rmatch ic r s True acc"
| "rmatch ic (GClose # r) s g acc = rmatch ic r s False acc"
| "rmatch ic (One c # r) [] g acc = None"
| "rmatch ic (One c # r) (x # xs) g acc =
     (if cmatch ic c x then rmatch ic r xs g (if g then x # acc else acc) else None)"
| "rmatch ic (Star c # r) [] g acc = rmatch ic r [] g acc"
| "rmatch ic (Star c # r) (x # xs) g acc =
     (if cmatch ic c x
      then (case rmatch ic (Star c # r) xs g (if g then x # acc else acc) of
              Some res \<Rightarrow> Some res
            | None \<Rightarrow> rmatch ic r (x # xs) g acc)
      else rmatch ic r (x # xs) g acc)"
| "rmatch ic (Opt c # r) [] g acc = rmatch ic r [] g acc"
| "rmatch ic (Opt c # r) (x # xs) g acc =
     (if cmatch ic c x
      then (case rmatch ic r xs g (if g then x # acc else acc) of
              Some res \<Rightarrow> Some res
            | None \<Rightarrow> rmatch ic r (x # xs) g acc)
      else rmatch ic r (x # xs) g acc)"

text \<open>\<open>re.search\<close>: the match at the leftmost position that has one.\<close>

fun re_search :: "bool \<Rightarrow> regex \<Rightarrow> string \<Rightarrow> string option" where
  "re_search ic r [] = rmatch ic r [] False []"
| "re_search ic r (x # xs) =
     (case rmatch ic r (x # xs) False [] of
        Some grp \<Rightarrow> Some grp
      | None \<Rightarrow> re_search ic r xs)"

definition lit :: "string \<Rightarrow> regex" where
  "lit s = map (\<lambda>c. One (Lit c)) s"


text \<open>The classes inside the capture group of a pattern (\<open>g\<close>: the group is open).\<close>

fun group_classes :: "bool \<Rightarrow> regex \<Rightarrow> cclass list" where
  "group_classes g [] = []"
| "group_classes g (GOpen # r) = group_classes True r"
| "group_classes g (GClose # r) = group_classes False r"
| "group_classes g (One c # r) = (if g then c # group_classes g r else group_classes g r)"
| "group_classes g (Star c # r) = (if g then c # group_classes g r else group_classes g r)"
| "group_classes g (Opt c # r) = (if g then c # group_classes g r else group_classes g r)"

section \<open>scraper.py\<close>

datatype StockStatus = IN_STOCK | OUT_OF_STOCK | WAREHOUSE_ONLY | UNKNOWN | REMOVED

fun StockStatus_value :: "StockStatus \<Rightarrow> string" where
  "StockStatus_value IN_STOCK = ''in_stock''"
| "StockStatus_value OUT_OF_STOCK = ''out_of_stock''"
| "StockStatus_value WAREHOUSE_ONLY = ''warehouse_only''"
| "StockStatus_value UNKNOWN = ''unknown''"
| "StockStatus_value REMOVED = ''removed''"

text \<open>\<open>STOCK_PATTERNS\<close>, one list for each key of the dictionary.\<close>

definition STOCK_PATTERNS_out_of_stock :: "regex list" where
  \<open>STOCK_PATTERNS_out_of_stock =
     [ lit ''class="'' @ [Star (NotLit (CHR 0x22))] @ lit ''outOfStock''
         @ [Star (NotLit (CHR 0x22))] @ lit ''"'',
       lit ''>Out of Stock<'',
       lit ''disabled="disabled"'' @ [Star (NotLit CHR ''>'')] @ lit ''>Out of Stock'',
       lit ''btn-primary disabled outOfStock'' ]\<close>

definition STOCK_PATTERNS_in_stock :: "regex list" where
  \<open>STOCK_PATTERNS_in_stock =
     [ lit ''id="add-to-cart-button"'',
       lit ''>Add to cart<'',
       lit ''data-cy="addtocart-button'',
       lit ''class="'' @ [Star (NotLit (CHR 0x22))] @ lit ''add-to-cart__btn''
         @ [Star (NotLit (CHR 0x22))] @ lit ''"'' @ [Star (NotLit CHR ''>'')]
         @ lit ''>Add to cart'' ]\<close>

definition STOCK_PATTERNS_warehouse_only :: "regex list" where
  "STOCK_PATTERNS_warehouse_only =
     [ lit ''warehouse only'',
       lit ''in-warehouse'',
       lit ''Available in Warehouse'' ]"



text \<open>
  \<open>_parse_stock_status\<close>: three loops, each returning at the first pattern found in
  the page.
\<close>

fun any_pattern_found :: "regex list \<Rightarrow> string \<Rightarrow> bool" where
  "any_pattern_found [] html = False"
| "any_pattern_found (pattern # rest) html =
     (if re_search True pattern html \<noteq> None then True else any_pattern_found rest html)"

definition parse_stock_status :: "string \<Rightarrow> StockStatus" where
  "parse_stock_status html =
     (if any_pattern_found STOCK_PATTERNS_out_of_stock html then OUT_OF_STOCK
      else if any_pattern_found STOCK_PATTERNS_warehouse_only html then WAREHOUSE_ONLY
      else if any_pattern_found STOCK_PATTERNS_in_stock html then IN_STOCK
      else UNKNOWN)"











text \<open>Truth value of an optional string or number, as \<open>if x:\<close> tests it.\<close>

definition truthy_str :: "string option \<Rightarrow> bool" where
  "truthy_str x = (case x of None \<Rightarrow> False | Some s \<Rightarrow> s \<noteq> [])"

definition truthy_num :: "real option \<Rightarrow> bool" where
  "truthy_num x = (case x of None \<Rightarrow> False | Some v \<Rightarrow> v \<noteq> 0)"

record Settings =
  kill_switch :: bool
  backoff_multiplier :: real
  default_poll_interval_minutes :: int
  min_poll_interval_minutes :: int
  max_poll_interval_minutes :: int
  auto_add_to_basket_enabled :: bool

record ProductData =
  data_item_number :: string
  data_name :: "string option"
  data_price :: "real option"
  data_stock_status :: StockStatus
  data_image_url :: "string option"
  data_is_warehouse_only :: bool
  data_checkout_discount :: "real option"
  data_checkout_discount_text :: "string option"
  data_error :: "string option"

text \<open>\<open>ProductData(item_number=...)\<close> with the defaults of the dataclass.\<close>

definition ProductData_new :: "string \<Rightarrow> ProductData" where
  "ProductData_new item =
     \<lparr> data_item_number = item, data_name = None, data_price = None,
       data_stock_status = UNKNOWN, data_image_url = None, data_is_warehouse_only = False,
       data_checkout_discount = None, data_checkout_discount_text = None,
       data_error = None \<rparr>"

text \<open>
  The state of the scraper. The error counter starts at 0 and is only incremented or
  reset to 0, so it is a natural number.
\<close>

record CostcoScraper =
  last_request_time :: "real option"
  scraper_consecutive_errors :: nat
  backoff_until :: "real option"






text \<open>
  \<open>_wait_if_needed\<close> sleeps; what it leaves in the state is that a backoff that was
  still running when it was read is cleared.
\<close>

definition wait_if_needed :: "real \<Rightarrow> CostcoScraper \<Rightarrow> CostcoScraper" where
  "wait_if_needed now self =
     (case backoff_until self of
        None \<Rightarrow> self
      | Some b \<Rightarrow> if now < b then self\<lparr>backoff_until := None\<rparr> else self)"






section \<open>models.py\<close>

datatype AlertType =
  BACK_IN_STOCK | PRICE_DROP | TARGET_PRICE | LOWEST_EVER | STOCK_FLAPPING | ADDED_TO_BASKET

fun AlertType_value :: "AlertType \<Rightarrow> string" where
  "AlertType_value BACK_IN_STOCK = ''back_in_stock''"
| "AlertType_value PRICE_DROP = ''price_drop''"
| "AlertType_value TARGET_PRICE = ''target_price''"
| "AlertType_value LOWEST_EVER = ''lowest_ever''"
| "AlertType_value STOCK_FLAPPING = ''stock_flapping''"
| "AlertType_value ADDED_TO_BASKET = ''added_to_basket''"

text \<open>
  The columns of \<open>Product\<close> that the scheduler reads or writes. The stock status is the
  string column; the error counter is an integer column.
\<close>

record Product =
  product_id :: int
  item_number :: string
  name :: "string option"
  image_url :: "string option"
  current_price :: "real option"
  previous_price :: "real option"
  lowest_price :: "real option"
  highest_price :: "real option"
  stock_status :: string
  checkout_discount :: "real option"
  checkout_discount_text :: "string option"
  poll_interval_minutes :: "int option"
  target_price :: "real option"
  auto_add_to_basket :: bool
  auto_add_quantity :: int
  auto_add_max_price :: "real option"
  notify_back_in_stock :: bool
  notify_price_drop :: bool
  notify_target_price :: bool
  notify_lowest_ever :: bool
  last_checked_at :: "real option"
  last_in_stock_at :: "real option"
  last_price_change_at :: "real option"
  consecutive_errors :: int
  last_error :: "string option"
  last_error_at :: "real option"

record PriceHistory =
  ph_product_id :: int
  ph_price :: real
  ph_previous_price :: "real option"
  ph_recorded_at :: real

record StockHistory =
  sh_product_id :: int
  sh_status :: string
  sh_previous_status :: string
  sh_recorded_at :: real

record Alert =
  alert_product_id :: int
  alert_type :: string
  message :: string
  old_value :: "string option"
  new_value :: "string option"
  channels_sent :: string

section \<open>basket.py\<close>

record BasketResult =
  success :: bool
  result_message :: string

section \<open>scheduler.py\<close>

text \<open>
  An entry of \<open>alerts_to_send\<close>: the alert type, the old value and the new value.
\<close>

type_synonym alert_intent = "AlertType \<times> string option \<times> string option"

text \<open>
  What the scheduler leaves behind: the rows added to the session (\<open>db.add\<close>), in
  order, and the calls it made, in order: \<open>notified\<close> holds the arguments of each call
  of \<open>notifications.send_notification\<close>, \<open>basket_calls\<close> those of each call of
  \<open>add_to_basket\<close>.
\<close>

record Effects =
  stock_history :: "StockHistory list"
  price_history :: "PriceHistory list"
  alerts :: "Alert list"
  notified :: "alert_intent list"
  basket_calls :: "(string \<times> int) list"

text \<open>
  The two calls that leave the process. \<open>send_notification\<close> returns the result of each
  channel (its name and whether it succeeded), or raises (\<open>None\<close>); \<open>add_to_cart\<close> is
  \<open>CostcoSession.add_to_cart\<close>, which catches its own exceptions.
\<close>

record Collaborators =
  send_notification ::
    "Product \<Rightarrow> AlertType \<Rightarrow> string option \<Rightarrow> string option \<Rightarrow> (string \<times> bool) list option"
  add_to_cart :: "string \<Rightarrow> int \<Rightarrow> BasketResult"

definition add_to_basket :: "Settings \<Rightarrow> Collaborators \<Rightarrow> string \<Rightarrow> int \<Rightarrow> BasketResult" where
  "add_to_basket settings co item quantity =
     (if \<not> auto_add_to_basket_enabled settings
      then \<lparr> success = False, result_message = ''Auto-add-to-basket is disabled'' \<rparr>
      else add_to_cart co item quantity)"

text \<open>\<open>_should_poll\<close>; \<open>jitter\<close> is the value of \<open>random.uniform(0.8, 1.2)\<close>.\<close>

definition poll_interval :: "Settings \<Rightarrow> Product \<Rightarrow> int" where
  "poll_interval settings product =
     (case poll_interval_minutes product of
        None \<Rightarrow> default_poll_interval_minutes settings
      | Some n \<Rightarrow> if n \<noteq> 0 then n else default_poll_interval_minutes settings)"

definition should_poll :: "Settings \<Rightarrow> Product \<Rightarrow> real \<Rightarrow> real \<Rightarrow> bool" where
  "should_poll settings product now jitter =
     (case last_checked_at product of
        None \<Rightarrow> True
      | Some checked \<Rightarrow>
          let interval = poll_interval settings product;
              effective_interval = real_of_int interval * jitter;
              elapsed = (now - checked) / 60
          in elapsed \<ge> effective_interval)"

text \<open>
  The due-check in the words of the specification:
  \<open>effective_interval = clamp(product.override ?? global_default, global_min, global_max)\<close>,
  and a product is due if never checked, or if the minutes since its last check are at
  least \<open>effective_interval \<times> jitter\<close>.
\<close>

definition clamp :: "int \<Rightarrow> int \<Rightarrow> int \<Rightarrow> int" where
  "clamp x lo hi = max lo (min x hi)"

definition spec_effective_interval :: "Settings \<Rightarrow> Product \<Rightarrow> int" where
  "spec_effective_interval settings product =
     clamp (case poll_interval_minutes product of
              None \<Rightarrow> default_poll_interval_minutes settings
            | Some n \<Rightarrow> n)
       (min_poll_interval_minutes settings) (max_poll_interval_minutes settings)"

definition spec_due :: "Settings \<Rightarrow> Product \<Rightarrow> real \<Rightarrow> real \<Rightarrow> bool" where
  "spec_due settings product now jitter =
     (case last_checked_at product of
        None \<Rightarrow> True
      | Some checked \<Rightarrow>
          (now - checked) / 60 \<ge> real_of_int (spec_effective_interval settings product) * jitter)"

text \<open>\<open>str(x)\<close> of an optional string inside an f-string.\<close>

definition str_opt :: "string option \<Rightarrow> string" where
  "str_opt x = (case x of None \<Rightarrow> ''None'' | Some s \<Rightarrow> s)"

fun join_comma :: "string list \<Rightarrow> string" where
  "join_comma [] = []"
| "join_comma [s] = s"
| "join_comma (s # t # rest) = s @ '','' @ join_comma (t # rest)"

text \<open>
  \<open>_send_alert\<close>: the notification is sent, then the alert row is added. When
  \<open>send_notification\<close> raises, the exception is logged and no row is added.
\<close>

definition send_alert :: "Collaborators \<Rightarrow> Product \<Rightarrow> alert_intent \<Rightarrow> Effects \<Rightarrow> Effects" where
  "send_alert co product intent db =
     (case intent of
        (a_type, old_val, new_val) \<Rightarrow>
          let db1 = db\<lparr>notified := notified db @ [intent]\<rparr>
          in case send_notification co product a_type old_val new_val of
               None \<Rightarrow> db1
             | Some results \<Rightarrow>
                 db1\<lparr>alerts := alerts db1 @
                   [\<lparr> alert_product_id = product_id product,
                      alert_type = AlertType_value a_type,
                      message = AlertType_value a_type @ '': '' @ str_opt old_val @ '' -> ''
                                  @ str_opt new_val,
                      old_value = old_val,
                      new_value = new_val,
                      channels_sent = join_comma (map fst (filter snd results)) \<rparr>]\<rparr>)"

text \<open>The loop \<open>for alert_type, old_val, new_val in alerts_to_send\<close>.\<close>

fun send_alerts :: "Collaborators \<Rightarrow> Product \<Rightarrow> alert_intent list \<Rightarrow> Effects \<Rightarrow> Effects" where
  "send_alerts co product [] db = db"
| "send_alerts co product (intent # rest) db =
     send_alerts co product rest (send_alert co product intent db)"

text \<open>
  \<open>_handle_auto_basket\<close>. \<open>price_gate_skips\<close> is the test
  \<open>product.auto_add_max_price and data.price\<close> followed by
  \<open>data.price > product.auto_add_max_price\<close>, after which the function returns.
\<close>

definition price_gate_skips :: "Product \<Rightarrow> ProductData \<Rightarrow> bool" where
  "price_gate_skips product data =
     (truthy_num (auto_add_max_price product) \<and> truthy_num (data_price data) \<and>
      (case (data_price data, auto_add_max_price product) of
         (Some p, Some m) \<Rightarrow> p > m
       | _ \<Rightarrow> False))"

definition handle_auto_basket ::
  "Settings \<Rightarrow> Collaborators \<Rightarrow> Product \<Rightarrow> ProductData \<Rightarrow> Effects \<Rightarrow> Effects" where
  "handle_auto_basket settings co product data db =
     (if price_gate_skips product data then db
      else
        let db1 = db\<lparr>basket_calls := basket_calls db @
                        [(item_number product, auto_add_quantity product)]\<rparr>;
            result = add_to_basket settings co (item_number product) (auto_add_quantity product)
        in if success result
           then send_alert co product
                  (ADDED_TO_BASKET, None, Some (''Qty: '' @ str_int (auto_add_quantity product)))
                  db1
           else db1)"

text \<open>
  \<open>_process_product_update\<close>, in the order of the source. The part on the stock status
  (lines 226-258) gives the flag \<open>changed\<close>, the product, the effects and the entries of
  \<open>alerts_to_send\<close>; the call of \<open>_handle_auto_basket\<close> happens inside it.
\<close>

definition stock_update ::
  "Settings \<Rightarrow> Collaborators \<Rightarrow> real \<Rightarrow> ProductData \<Rightarrow> Product \<Rightarrow> Effects
     \<Rightarrow> bool \<times> Product \<times> Effects \<times> alert_intent list" where
  "stock_update settings co now data product db =
     (let old_status = stock_status product;
          new_status = StockStatus_value (data_stock_status data)
      in if old_status \<noteq> new_status
         then
           let db1 = db\<lparr>stock_history := stock_history db @
                           [\<lparr> sh_product_id = product_id product, sh_status = new_status,
                              sh_previous_status = old_status, sh_recorded_at = now \<rparr>]\<rparr>;
               product1 = product\<lparr>stock_status := new_status\<rparr>
           in if old_status = StockStatus_value OUT_OF_STOCK \<and>
                 new_status = StockStatus_value IN_STOCK
              then
                let product2 = product1\<lparr>last_in_stock_at := Some now\<rparr>;
                    alerts_to_send =
                      (if notify_back_in_stock product2
                       then [(BACK_IN_STOCK, Some old_status, Some new_status)] else []);
                    db2 = (if auto_add_to_basket product2
                           then handle_auto_basket settings co product2 data db1 else db1)
                in (True, product2, db2, alerts_to_send)
              else (True, product1, db1, [])
         else (False, product, db, []))"

text \<open>
  The part on the price (lines 260-317). \<open>price_differs\<close> is the test
  \<open>old_price is None or abs(old_price - new_price) > 0.01\<close>.
\<close>

definition price_differs :: "real option \<Rightarrow> real \<Rightarrow> bool" where
  "price_differs old_price new_price =
     (case old_price of None \<Rightarrow> True | Some old \<Rightarrow> \<bar>old - new_price\<bar> > 1 / 100)"

definition lowest_alert :: "Product \<Rightarrow> real \<Rightarrow> alert_intent list" where
  "lowest_alert product new_price =
     (case lowest_price product of
        None \<Rightarrow> []
      | Some old_lowest \<Rightarrow>
          if new_price < old_lowest \<and> notify_lowest_ever product
          then [(LOWEST_EVER, Some (fmt2 old_lowest), Some (fmt2 new_price))] else [])"

definition update_lowest :: "Product \<Rightarrow> real \<Rightarrow> Product" where
  "update_lowest product new_price =
     (case lowest_price product of
        None \<Rightarrow> product\<lparr>lowest_price := Some new_price\<rparr>
      | Some old_lowest \<Rightarrow>
          if new_price < old_lowest then product\<lparr>lowest_price := Some new_price\<rparr>
          else product)"

definition update_highest :: "Product \<Rightarrow> real \<Rightarrow> Product" where
  "update_highest product new_price =
     (case highest_price product of
        None \<Rightarrow> product\<lparr>highest_price := Some new_price\<rparr>
      | Some old_highest \<Rightarrow>
          if new_price > old_highest then product\<lparr>highest_price := Some new_price\<rparr>
          else product)"

definition drop_alert :: "Product \<Rightarrow> real option \<Rightarrow> real \<Rightarrow> alert_intent list" where
  "drop_alert product old_price new_price =
     (case old_price of
        None \<Rightarrow> []
      | Some old \<Rightarrow>
          if old \<noteq> 0 \<and> new_price < old \<and> notify_price_drop product
          then [(PRICE_DROP, Some (fmt2 old), Some (fmt2 new_price))] else [])"

definition target_alert :: "Product \<Rightarrow> real \<Rightarrow> alert_intent list" where
  "target_alert product new_price =
     (case target_price product of
        None \<Rightarrow> []
      | Some target \<Rightarrow>
          if target \<noteq> 0 \<and> new_price \<le> target \<and> notify_target_price product
          then [(TARGET_PRICE, None, Some (fmt2 new_price))] else [])"

definition price_update ::
  "real \<Rightarrow> ProductData \<Rightarrow> Product \<Rightarrow> Effects \<Rightarrow> bool \<times> Product \<times> Effects \<times> alert_intent list"
  where
  "price_update now data product db =
     (let with_discount = (\<lambda>p. p\<lparr>checkout_discount := data_checkout_discount data,
                                 checkout_discount_text := data_checkout_discount_text data\<rparr>)
      in case data_price data of
           None \<Rightarrow> (False, with_discount product, db, [])
         | Some new_price \<Rightarrow>
             let old_price = current_price product
             in if price_differs old_price new_price
                then
                  let product1 = product\<lparr>previous_price := old_price,
                                         current_price := Some new_price,
                                         last_price_change_at := Some now\<rparr>;
                      db1 = db\<lparr>price_history := price_history db @
                                [\<lparr> ph_product_id = product_id product, ph_price = new_price,
                                   ph_previous_price = old_price, ph_recorded_at = now \<rparr>]\<rparr>;
                      product2 = with_discount product1;
                      alerts1 = lowest_alert product2 new_price;
                      product3 = update_lowest product2 new_price;
                      product4 = update_highest product3 new_price;
                      alerts2 = drop_alert product4 old_price new_price;
                      alerts3 = target_alert product4 new_price
                  in (True, product4, db1, alerts1 @ alerts2 @ alerts3)
                else (False, with_discount product, db, []))"

text \<open>
  The whole function. The result is the returned flag, the product as it is left and the
  effects. The alerts of \<open>alerts_to_send\<close> are sent at the end, after both parts.
\<close>

definition process_product_update ::
  "Settings \<Rightarrow> Collaborators \<Rightarrow> real \<Rightarrow> Effects \<Rightarrow> Product \<Rightarrow> ProductData
     \<Rightarrow> bool \<times> Product \<times> Effects" where
  "process_product_update settings co now db product data =
     (let product0 = product\<lparr>last_checked_at := Some now\<rparr>
      in if truthy_str (data_error data)
         then (False,
               product0\<lparr>consecutive_errors := consecutive_errors product0 + 1,
                        last_error := data_error data,
                        last_error_at := Some now\<rparr>,
               db)
         else
           let product1 = product0\<lparr>consecutive_errors := 0, last_error := None\<rparr>;
               product2 = (if truthy_str (data_name data) \<and> \<not> truthy_str (name product1)
                           then product1\<lparr>name := data_name data\<rparr> else product1);
               product3 = (if truthy_str (data_image_url data)
                           then product2\<lparr>image_url := data_image_url data\<rparr> else product2)
           in case stock_update settings co now data product3 db of
                (changed1, product4, db1, alerts1) \<Rightarrow>
                  (case price_update now data product4 db1 of
                     (changed2, product5, db2, alerts2) \<Rightarrow>
                       (changed1 \<or> changed2, product5,
                        send_alerts co product5 (alerts1 @ alerts2) db2)))"

section \<open>Inputs used in the examples\<close>

definition fixture_both_markers :: string where
  "fixture_both_markers = ''>Add to Cart<b>out of stock<''"



text \<open>The defaults of \<open>config.py\<close> and the scraper as \<open>__init__\<close> leaves it.\<close>

definition Settings_defaults :: Settings where
  "Settings_defaults =
     \<lparr> kill_switch = False, backoff_multiplier = 2, default_poll_interval_minutes = 45,
       min_poll_interval_minutes = 15, max_poll_interval_minutes = 180,
       auto_add_to_basket_enabled = False \<rparr>"




text \<open>A product row with the column defaults of \<open>models.py\<close>.\<close>

definition Product_new :: "string \<Rightarrow> Product" where
  "Product_new item =
     \<lparr> product_id = 1, item_number = item, name = None, image_url = None,
       current_price = None, previous_price = None, lowest_price = None,
       highest_price = None, stock_status = StockStatus_value UNKNOWN,
       checkout_discount = None, checkout_discount_text = None,
       poll_interval_minutes = None, target_price = None,
       auto_add_to_basket = False, auto_add_quantity = 1, auto_add_max_price = None,
       notify_back_in_stock = True, notify_price_drop = True, notify_target_price = True,
       notify_lowest_ever = True, last_checked_at = None, last_in_stock_at = None,
       last_price_change_at = None, consecutive_errors = 0, last_error = None,
       last_error_at = None \<rparr>"

definition Effects_empty :: Effects where
  "Effects_empty =
     \<lparr> stock_history = [], price_history = [], alerts = [], notified = [],
       basket_calls = [] \<rparr>"

text \<open>
  Collaborators for the examples: every notification is delivered by e-mail, and the
  basket accepts or refuses every item.
\<close>

definition basket_accepts :: Collaborators where
  "basket_accepts =
     \<lparr> send_notification = (\<lambda>product a_type old_val new_val. Some [(''email'', True)]),
       add_to_cart = (\<lambda>item quantity. \<lparr> success = True, result_message = ''Added'' \<rparr>) \<rparr>"

definition basket_refuses :: Collaborators where
  "basket_refuses =
     \<lparr> send_notification = (\<lambda>product a_type old_val new_val. Some [(''email'', True)]),
       add_to_cart = (\<lambda>item quantity. \<lparr> success = False, result_message = ''Failed'' \<rparr>) \<rparr>"

definition product_override_5 :: Product where
  "product_override_5 =
     (Product_new ''123456'')\<lparr>poll_interval_minutes := Some 5, last_checked_at := Some 0\<rparr>"

definition product_override_30 :: Product where
  "product_override_30 =
     (Product_new ''123456'')\<lparr>poll_interval_minutes := Some 30, last_checked_at := Some 0\<rparr>"



text \<open>A product with two failed polls behind it, and three snapshots.\<close>

definition product_failing :: Product where
  "product_failing =
     (Product_new ''123456'')\<lparr>consecutive_errors := 2, last_error := Some ''HTTP 302''\<rparr>"

definition snapshot_timeout :: ProductData where
  "snapshot_timeout = (ProductData_new ''123456'')\<lparr>data_error := Some ''Request timeout''\<rparr>"

definition snapshot_in_stock_100 :: ProductData where
  "snapshot_in_stock_100 =
     (ProductData_new ''123456'')\<lparr>data_price := Some 100, data_stock_status := IN_STOCK\<rparr>"

definition snapshot_85 :: ProductData where
  "snapshot_85 = (ProductData_new ''123456'')\<lparr>data_price := Some 85\<rparr>"

text \<open>The product of scenario B: price 100, lowest 100, highest 120, target 90.\<close>

definition product_scenario_B :: Product where
  "product_scenario_B =
     (Product_new ''123456'')\<lparr>current_price := Some 100, lowest_price := Some 100,
        highest_price := Some 120, target_price := Some 90\<rparr>"

text \<open>
  A product that is out of stock, with the auto-add-to-basket flag set and the
  feature enabled in the settings.
\<close>

definition Settings_basket_enabled :: Settings where
  "Settings_basket_enabled = Settings_defaults\<lparr>auto_add_to_basket_enabled := True\<rparr>"

definition product_out_of_stock :: Product where
  "product_out_of_stock =
     (Product_new ''123456'')\<lparr>stock_status := ''out_of_stock'', auto_add_to_basket := True\<rparr>"

definition snapshot_in_stock_no_price :: ProductData where
  "snapshot_in_stock_no_price = (ProductData_new ''123456'')\<lparr>data_stock_status := IN_STOCK\<rparr>"

text \<open>
  The same product with a maximum price of 50 for the basket and a stored price of 60.
\<close>

definition product_gate_50 :: Product where
  "product_gate_50 =
     product_out_of_stock\<lparr>auto_add_max_price := Some 50, current_price := Some 60\<rparr>"

definition snapshot_in_stock_60 :: ProductData where
  "snapshot_in_stock_60 =
     (ProductData_new ''123456'')\<lparr>data_price := Some 60, data_stock_status := IN_STOCK\<rparr>"

section \<open>Stock classification\<close>

lemma any_pattern_found_iff:
  "any_pattern_found ps html \<longleftrightarrow> (\<exists>p\<in>set ps. re_search True p html \<noteq> None)"
  by (induction ps) auto

text \<open>
  Claim C1. The stock classification follows a fixed precedence: \<open>out_of_stock\<close> if any
  out-of-stock pattern is found in the body, otherwise \<open>warehouse_only\<close> if any
  warehouse-only pattern is found, otherwise \<open>in_stock\<close> if any in-stock pattern is
  found, otherwise \<open>unknown\<close>. In particular a body with both an out-of-stock and an
  in-stock marker is \<open>out_of_stock\<close>.
\<close>

theorem stock_precedence:
  "parse_stock_status html =
     (if \<exists>p\<in>set STOCK_PATTERNS_out_of_stock. re_search True p html \<noteq> None
      then OUT_OF_STOCK
      else if \<exists>p\<in>set STOCK_PATTERNS_warehouse_only. re_search True p html \<noteq> None
      then WAREHOUSE_ONLY
      else if \<exists>p\<in>set STOCK_PATTERNS_in_stock. re_search True p html \<noteq> None
      then IN_STOCK
      else UNKNOWN)
   \<and> ((\<exists>p\<in>set STOCK_PATTERNS_out_of_stock. re_search True p html \<noteq> None) \<and>
        (\<exists>q\<in>set STOCK_PATTERNS_in_stock. re_search True q html \<noteq> None)
        \<longrightarrow> parse_stock_status html = OUT_OF_STOCK)"
  unfolding parse_stock_status_def any_pattern_found_iff by simp

lemma both_markers_out:
  "re_search True (lit ''>Out of Stock<'') fixture_both_markers \<noteq> None"
  by code_simp

lemma both_markers_in:
  "re_search True (lit ''>Add to cart<'') fixture_both_markers \<noteq> None"
  by code_simp

theorem stock_precedence_witness:
  "(\<exists>p\<in>set STOCK_PATTERNS_out_of_stock. re_search True p fixture_both_markers \<noteq> None) \<and>
   (\<exists>q\<in>set STOCK_PATTERNS_in_stock. re_search True q fixture_both_markers \<noteq> None) \<and>
   parse_stock_status fixture_both_markers = OUT_OF_STOCK"
proof -
  have out: "\<exists>p\<in>set STOCK_PATTERNS_out_of_stock.
       re_search True p fixture_both_markers \<noteq> None"
    using both_markers_out by (simp add: STOCK_PATTERNS_out_of_stock_def)
  have ins: "\<exists>q\<in>set STOCK_PATTERNS_in_stock.
       re_search True q fixture_both_markers \<noteq> None"
    using both_markers_in by (simp add: STOCK_PATTERNS_in_stock_def)
  from out ins stock_precedence [of fixture_both_markers]
  show ?thesis by blast
qed

section \<open>Price extraction\<close>











section \<open>Backoff after blocking\<close>




lemma wait_if_needed_errors [simp]:
  "scraper_consecutive_errors (wait_if_needed now self) = scraper_consecutive_errors self"
  by (simp add: wait_if_needed_def split: option.splits)




section \<open>The due-check of the scheduler\<close>

text \<open>
  Claim C3 as stated clamps the interval to the global minimum and maximum. The code
  does not: with the default limits (15 to 180 minutes), a product with an override of
  5 minutes, checked 10 minutes ago, is due at jitter 1, and is not due under the
  clamped interval of 15 minutes.
\<close>

theorem due_check_clamp_counterexample:
  "should_poll Settings_defaults product_override_5 600 1 \<and>
   \<not> spec_due Settings_defaults product_override_5 600 1"
  by (simp add: should_poll_def spec_due_def spec_effective_interval_def clamp_def
      poll_interval_def Settings_defaults_def product_override_5_def Product_new_def)

lemma should_poll_iff:
  "should_poll settings product now jitter \<longleftrightarrow>
     (case last_checked_at product of
        None \<Rightarrow> True
      | Some checked \<Rightarrow>
          (now - checked) / 60 \<ge> real_of_int (poll_interval settings product) * jitter)"
  by (simp add: should_poll_def Let_def split: option.splits)

text \<open>
  Claim C3, amended. A product is due iff it was never checked, or the minutes since its
  last check are at least the interval times the jitter, where the interval is the
  per-product override if it is set and not zero, and the global default otherwise. The
  interval is not clamped to the global minimum and maximum: the check agrees with the
  clamped one when the interval lies within them (and the override is not zero). For a
  positive interval and a jitter in [0.8, 1.2], a product last checked 0.79 times the
  interval ago is never due.
\<close>

theorem due_check:
  "(should_poll settings product now jitter \<longleftrightarrow>
      last_checked_at product = None \<or>
      (\<exists>checked. last_checked_at product = Some checked \<and>
         (now - checked) / 60 \<ge> real_of_int (poll_interval settings product) * jitter))
   \<and> poll_interval settings product =
       (case poll_interval_minutes product of
          None \<Rightarrow> default_poll_interval_minutes settings
        | Some n \<Rightarrow> if n = 0 then default_poll_interval_minutes settings else n)
   \<and> (poll_interval_minutes product \<noteq> Some 0 \<and>
        min_poll_interval_minutes settings \<le> poll_interval settings product \<and>
        poll_interval settings product \<le> max_poll_interval_minutes settings
        \<longrightarrow> should_poll settings product now jitter = spec_due settings product now jitter)
   \<and> (last_checked_at product = Some checked \<and> 0 < poll_interval settings product \<and>
        8 / 10 \<le> jitter \<and> jitter \<le> 12 / 10 \<and>
        (now - checked) / 60 = 79 / 100 * real_of_int (poll_interval settings product)
        \<longrightarrow> \<not> should_poll settings product now jitter)"
proof (intro conjI impI)
  show "should_poll settings product now jitter \<longleftrightarrow>
      last_checked_at product = None \<or>
      (\<exists>checked. last_checked_at product = Some checked \<and>
         (now - checked) / 60 \<ge> real_of_int (poll_interval settings product) * jitter)"
    by (cases "last_checked_at product") (simp_all add: should_poll_iff)
  show "poll_interval settings product =
       (case poll_interval_minutes product of
          None \<Rightarrow> default_poll_interval_minutes settings
        | Some n \<Rightarrow> if n = 0 then default_poll_interval_minutes settings else n)"
    by (simp add: poll_interval_def split: option.splits)
next
  assume a: "poll_interval_minutes product \<noteq> Some 0 \<and>
        min_poll_interval_minutes settings \<le> poll_interval settings product \<and>
        poll_interval settings product \<le> max_poll_interval_minutes settings"
  then have "spec_effective_interval settings product = poll_interval settings product"
    by (auto simp: spec_effective_interval_def poll_interval_def clamp_def
        split: option.splits)
  then show "should_poll settings product now jitter = spec_due settings product now jitter"
    by (simp add: should_poll_iff spec_due_def split: option.splits)
next
  assume a: "last_checked_at product = Some checked \<and> 0 < poll_interval settings product \<and>
        8 / 10 \<le> jitter \<and> jitter \<le> 12 / 10 \<and>
        (now - checked) / 60 = 79 / 100 * real_of_int (poll_interval settings product)"
  define i where "i = real_of_int (poll_interval settings product)"
  from a have pos: "0 < i" and lc: "last_checked_at product = Some checked"
    and j: "8 / 10 \<le> jitter" and e: "(now - checked) / 60 = 79 / 100 * i"
    by (simp_all add: i_def)
  have "79 / 100 * i < 8 / 10 * i" using pos by simp
  also have "8 / 10 * i \<le> jitter * i" using j pos by (rule mult_right_mono [OF _ less_imp_le])
  finally have "(now - checked) / 60 < i * jitter" using e by (simp only: mult.commute)
  then have nle: "\<not> i * jitter \<le> (now - checked) / 60" by linarith
  have "should_poll settings product now jitter \<longleftrightarrow> i * jitter \<le> (now - checked) / 60"
    by (simp only: should_poll_iff lc option.case i_def)
  with nle show "\<not> should_poll settings product now jitter" by blast
qed

theorem due_check_witness:
  "poll_interval_minutes product_override_30 \<noteq> Some 0 \<and>
   min_poll_interval_minutes Settings_defaults
     \<le> poll_interval Settings_defaults product_override_30 \<and>
   poll_interval Settings_defaults product_override_30
     \<le> max_poll_interval_minutes Settings_defaults \<and>
   last_checked_at product_override_30 = Some 0 \<and>
   0 < poll_interval Settings_defaults product_override_30 \<and>
   (8 / 10 :: real) \<le> 8 / 10 \<and> (8 / 10 :: real) \<le> 12 / 10 \<and>
   (1422 - 0) / 60 = 79 / 100 * real_of_int (poll_interval Settings_defaults product_override_30) \<and>
   \<not> should_poll Settings_defaults product_override_30 1422 (8 / 10) \<and>
   should_poll Settings_defaults product_override_30 1422 (8 / 10)
     = spec_due Settings_defaults product_override_30 1422 (8 / 10)"
proof -
  note dc = due_check [of Settings_defaults product_override_30 1422 "8 / 10" 0]
  have p: "poll_interval Settings_defaults product_override_30 = 30"
    by (simp add: poll_interval_def product_override_30_def Product_new_def)
  have pre3: "poll_interval_minutes product_override_30 \<noteq> Some 0 \<and>
      min_poll_interval_minutes Settings_defaults
        \<le> poll_interval Settings_defaults product_override_30 \<and>
      poll_interval Settings_defaults product_override_30
        \<le> max_poll_interval_minutes Settings_defaults"
    by (simp add: p) (simp add: product_override_30_def Product_new_def Settings_defaults_def)
  have pre4: "last_checked_at product_override_30 = Some 0 \<and>
      0 < poll_interval Settings_defaults product_override_30 \<and>
      (8 / 10 :: real) \<le> 8 / 10 \<and> (8 / 10 :: real) \<le> 12 / 10 \<and>
      (1422 - 0) / 60
        = 79 / 100 * real_of_int (poll_interval Settings_defaults product_override_30)"
    by (simp add: p) (simp add: product_override_30_def Product_new_def)
  from dc pre3 have c3: "should_poll Settings_defaults product_override_30 1422 (8 / 10)
      = spec_due Settings_defaults product_override_30 1422 (8 / 10)"
    by blast
  from dc pre4 have c4: "\<not> should_poll Settings_defaults product_override_30 1422 (8 / 10)"
    by blast
  show ?thesis using pre3 pre4 c3 c4 by blast
qed

section \<open>Responses with status 404\<close>












section \<open>Processing a snapshot\<close>

subsection \<open>Sending alerts\<close>

lemma send_alert_notified [simp]:
  "notified (send_alert co product intent db) = notified db @ [intent]"
  by (cases intent) (simp add: send_alert_def Let_def split: option.splits)

lemma send_alert_basket_calls [simp]:
  "basket_calls (send_alert co product intent db) = basket_calls db"
  by (cases intent) (simp add: send_alert_def Let_def split: option.splits)

lemma send_alerts_notified [simp]:
  "notified (send_alerts co product intents db) = notified db @ intents"
  by (induction intents arbitrary: db) simp_all

lemma send_alerts_basket_calls [simp]:
  "basket_calls (send_alerts co product intents db) = basket_calls db"
  by (induction intents arbitrary: db) simp_all

subsection \<open>The part on the stock status\<close>

text \<open>The transition that brings a product back in stock.\<close>

lemma stock_update_unchanged:
  assumes "stock_status product = StockStatus_value (data_stock_status data)"
  shows "stock_update settings co now data product db = (False, product, db, [])"
  using assms by (simp add: stock_update_def Let_def)

lemma stock_update_other:
  assumes "stock_status product \<noteq> StockStatus_value (data_stock_status data)"
    and "\<not> (stock_status product = ''out_of_stock'' \<and> data_stock_status data = IN_STOCK)"
  shows "stock_update settings co now data product db =
    (True, product\<lparr>stock_status := StockStatus_value (data_stock_status data)\<rparr>,
     db\<lparr>stock_history := stock_history db @
           [\<lparr> sh_product_id = product_id product,
              sh_status = StockStatus_value (data_stock_status data),
              sh_previous_status = stock_status product, sh_recorded_at = now \<rparr>]\<rparr>, [])"
  using assms by (cases "data_stock_status data") (auto simp: stock_update_def Let_def)

lemma stock_update_back_in_stock:
  assumes "stock_status product = ''out_of_stock''" and "data_stock_status data = IN_STOCK"
  shows "stock_update settings co now data product db =
    (True,
     product\<lparr>stock_status := ''in_stock'', last_in_stock_at := Some now\<rparr>,
     (if auto_add_to_basket product
      then handle_auto_basket settings co
             (product\<lparr>stock_status := ''in_stock'', last_in_stock_at := Some now\<rparr>) data
             (db\<lparr>stock_history := stock_history db @
                   [\<lparr> sh_product_id = product_id product, sh_status = ''in_stock'',
                      sh_previous_status = ''out_of_stock'', sh_recorded_at = now \<rparr>]\<rparr>)
      else db\<lparr>stock_history := stock_history db @
                   [\<lparr> sh_product_id = product_id product, sh_status = ''in_stock'',
                      sh_previous_status = ''out_of_stock'', sh_recorded_at = now \<rparr>]\<rparr>),
     (if notify_back_in_stock product
      then [(BACK_IN_STOCK, Some ''out_of_stock'', Some ''in_stock'')] else []))"
  using assms by (simp add: stock_update_def Let_def)

text \<open>The part on the stock status leaves the prices, the flags and the counter alone.\<close>

lemma stock_update_product:
  "\<exists>st lis. fst (snd (stock_update settings co now data product db))
      = product\<lparr>stock_status := st, last_in_stock_at := lis\<rparr>"
proof (cases "stock_status product = StockStatus_value (data_stock_status data)")
  case True
  have "product = product\<lparr>stock_status := stock_status product,
      last_in_stock_at := last_in_stock_at product\<rparr>" by simp
  with True show ?thesis by (metis stock_update_unchanged fst_conv snd_conv)
next
  case False
  show ?thesis
  proof (cases "stock_status product = ''out_of_stock'' \<and> data_stock_status data = IN_STOCK")
    case True
    then show ?thesis by (auto simp: stock_update_back_in_stock)
  next
    case no: False
    have "product\<lparr>stock_status := StockStatus_value (data_stock_status data)\<rparr>
        = product\<lparr>stock_status := StockStatus_value (data_stock_status data),
            last_in_stock_at := last_in_stock_at product\<rparr>" by simp
    then show ?thesis
      using stock_update_other [OF False no, of settings co now db]
      by (metis fst_conv snd_conv)
  qed
qed

subsection \<open>The part on the price\<close>

lemma price_update_db:
  "notified (fst (snd (snd (price_update now data product db)))) = notified db \<and>
   alerts (fst (snd (snd (price_update now data product db)))) = alerts db \<and>
   basket_calls (fst (snd (snd (price_update now data product db)))) = basket_calls db"
  by (simp add: price_update_def Let_def split: option.splits)

lemma price_update_no_price:
  assumes "data_price data = None"
  shows "price_update now data product db =
    (False, product\<lparr>checkout_discount := data_checkout_discount data,
                    checkout_discount_text := data_checkout_discount_text data\<rparr>, db, [])"
  using assms by (simp add: price_update_def)

lemma price_update_same:
  assumes "data_price data = Some new_price"
    and "\<not> price_differs (current_price product) new_price"
  shows "price_update now data product db =
    (False, product\<lparr>checkout_discount := data_checkout_discount data,
                    checkout_discount_text := data_checkout_discount_text data\<rparr>, db, [])"
  using assms by (simp add: price_update_def)

lemma price_update_changed:
  assumes "data_price data = Some new_price"
    and "price_differs (current_price product) new_price"
  shows "price_update now data product db =
    (let product2 = product\<lparr>previous_price := current_price product,
                            current_price := Some new_price,
                            last_price_change_at := Some now,
                            checkout_discount := data_checkout_discount data,
                            checkout_discount_text := data_checkout_discount_text data\<rparr>;
         product4 = update_highest (update_lowest product2 new_price) new_price
     in (True, product4,
         db\<lparr>price_history := price_history db @
               [\<lparr> ph_product_id = product_id product, ph_price = new_price,
                  ph_previous_price = current_price product, ph_recorded_at = now \<rparr>]\<rparr>,
         lowest_alert product2 new_price
           @ drop_alert product4 (current_price product) new_price
           @ target_alert product4 new_price))"
  using assms by (simp add: price_update_def Let_def)

lemma update_lowest_fields [simp]:
  "current_price (update_lowest p v) = current_price p"
  "previous_price (update_lowest p v) = previous_price p"
  "highest_price (update_lowest p v) = highest_price p"
  "target_price (update_lowest p v) = target_price p"
  "notify_price_drop (update_lowest p v) = notify_price_drop p"
  "notify_target_price (update_lowest p v) = notify_target_price p"
  "consecutive_errors (update_lowest p v) = consecutive_errors p"
  by (simp_all add: update_lowest_def split: option.splits)

lemma update_highest_fields [simp]:
  "current_price (update_highest p v) = current_price p"
  "previous_price (update_highest p v) = previous_price p"
  "lowest_price (update_highest p v) = lowest_price p"
  "target_price (update_highest p v) = target_price p"
  "notify_price_drop (update_highest p v) = notify_price_drop p"
  "notify_target_price (update_highest p v) = notify_target_price p"
  "consecutive_errors (update_highest p v) = consecutive_errors p"
  by (simp_all add: update_highest_def split: option.splits)

lemma price_update_consecutive_errors:
  "consecutive_errors (fst (snd (price_update now data product db)))
     = consecutive_errors product"
  by (simp add: price_update_def Let_def split: option.splits)

lemma price_update_alert_types:
  "\<forall>a\<in>set (snd (snd (snd (price_update now data product db)))).
     fst a = LOWEST_EVER \<or> fst a = PRICE_DROP \<or> fst a = TARGET_PRICE"
  by (auto simp: price_update_def Let_def lowest_alert_def drop_alert_def target_alert_def
      split: option.splits if_splits)

lemma stock_update_consecutive_errors:
  "consecutive_errors (fst (snd (stock_update settings co now data product db)))
     = consecutive_errors product"
proof -
  obtain st lis where "fst (snd (stock_update settings co now data product db))
      = product\<lparr>stock_status := st, last_in_stock_at := lis\<rparr>"
    using stock_update_product by blast
  then show ?thesis by simp
qed

lemma stock_update_prices:
  "current_price (fst (snd (stock_update settings co now data product db)))
     = current_price product \<and>
   lowest_price (fst (snd (stock_update settings co now data product db)))
     = lowest_price product \<and>
   highest_price (fst (snd (stock_update settings co now data product db)))
     = highest_price product \<and>
   previous_price (fst (snd (stock_update settings co now data product db)))
     = previous_price product"
proof -
  obtain st lis where "fst (snd (stock_update settings co now data product db))
      = product\<lparr>stock_status := st, last_in_stock_at := lis\<rparr>"
    using stock_update_product by blast
  then show ?thesis by simp
qed

text \<open>The product that \<open>_process_product_update\<close> leaves after a snapshot without error.\<close>

lemma process_product_update_product:
  assumes "\<not> truthy_str (data_error data)"
  shows "\<exists>product3 db1.
     consecutive_errors product3 = 0 \<and>
     current_price product3 = current_price product \<and>
     lowest_price product3 = lowest_price product \<and>
     highest_price product3 = highest_price product \<and>
     previous_price product3 = previous_price product \<and>
     fst (snd (process_product_update settings co now db product data))
       = fst (snd (price_update now data
                     (fst (snd (stock_update settings co now data product3 db))) db1))"
proof -
  define product3 where "product3 =
    (let product1 = product\<lparr>last_checked_at := Some now, consecutive_errors := 0,
                            last_error := None\<rparr>;
         product2 = (if truthy_str (data_name data) \<and> \<not> truthy_str (name product1)
                     then product1\<lparr>name := data_name data\<rparr> else product1)
     in if truthy_str (data_image_url data)
        then product2\<lparr>image_url := data_image_url data\<rparr> else product2)"
  have f: "consecutive_errors product3 = 0" "current_price product3 = current_price product"
    "lowest_price product3 = lowest_price product"
    "highest_price product3 = highest_price product"
    "previous_price product3 = previous_price product"
    by (simp_all add: product3_def Let_def)
  have "fst (snd (process_product_update settings co now db product data))
       = fst (snd (price_update now data
                     (fst (snd (stock_update settings co now data product3 db)))
                     (fst (snd (snd (stock_update settings co now data product3 db))))))"
    using assms
    by (simp add: process_product_update_def Let_def product3_def split: prod.splits)
  with f show ?thesis by blast
qed

text \<open>
  A snapshot without error: the steps of \<open>_process_product_update\<close>, on a product that
  differs from the given one in the time of the check, the error fields, the name and the
  image only.
\<close>

lemma process_product_update_steps:
  assumes "\<not> truthy_str (data_error data)"
  shows "\<exists>product3.
     product_id product3 = product_id product \<and>
     item_number product3 = item_number product \<and>
     stock_status product3 = stock_status product \<and>
     current_price product3 = current_price product \<and>
     previous_price product3 = previous_price product \<and>
     lowest_price product3 = lowest_price product \<and>
     highest_price product3 = highest_price product \<and>
     target_price product3 = target_price product \<and>
     notify_back_in_stock product3 = notify_back_in_stock product \<and>
     notify_price_drop product3 = notify_price_drop product \<and>
     notify_target_price product3 = notify_target_price product \<and>
     notify_lowest_ever product3 = notify_lowest_ever product \<and>
     auto_add_to_basket product3 = auto_add_to_basket product \<and>
     auto_add_quantity product3 = auto_add_quantity product \<and>
     auto_add_max_price product3 = auto_add_max_price product \<and>
     process_product_update settings co now db product data =
       (case stock_update settings co now data product3 db of
          (changed1, product4, db1, alerts1) \<Rightarrow>
            (case price_update now data product4 db1 of
               (changed2, product5, db2, alerts2) \<Rightarrow>
                 (changed1 \<or> changed2, product5,
                  send_alerts co product5 (alerts1 @ alerts2) db2)))"
proof -
  define product3 where "product3 =
    (let product1 = product\<lparr>last_checked_at := Some now, consecutive_errors := 0,
                            last_error := None\<rparr>;
         product2 = (if truthy_str (data_name data) \<and> \<not> truthy_str (name product1)
                     then product1\<lparr>name := data_name data\<rparr> else product1)
     in if truthy_str (data_image_url data)
        then product2\<lparr>image_url := data_image_url data\<rparr> else product2)"
  have "process_product_update settings co now db product data =
       (case stock_update settings co now data product3 db of
          (changed1, product4, db1, alerts1) \<Rightarrow>
            (case price_update now data product4 db1 of
               (changed2, product5, db2, alerts2) \<Rightarrow>
                 (changed1 \<or> changed2, product5,
                  send_alerts co product5 (alerts1 @ alerts2) db2)))"
    using assms by (simp add: process_product_update_def Let_def product3_def)
  moreover have "product_id product3 = product_id product \<and>
     item_number product3 = item_number product \<and>
     stock_status product3 = stock_status product \<and>
     current_price product3 = current_price product \<and>
     previous_price product3 = previous_price product \<and>
     lowest_price product3 = lowest_price product \<and>
     highest_price product3 = highest_price product \<and>
     target_price product3 = target_price product \<and>
     notify_back_in_stock product3 = notify_back_in_stock product \<and>
     notify_price_drop product3 = notify_price_drop product \<and>
     notify_target_price product3 = notify_target_price product \<and>
     notify_lowest_ever product3 = notify_lowest_ever product \<and>
     auto_add_to_basket product3 = auto_add_to_basket product \<and>
     auto_add_quantity product3 = auto_add_quantity product \<and>
     auto_add_max_price product3 = auto_add_max_price product"
    by (simp add: product3_def Let_def)
  ultimately show ?thesis by blast
qed

subsection \<open>Numbers as text\<close>

lemma digit_char_values:
  "digit_char 0 = CHR ''0''" "digit_char (Suc 0) = CHR ''1''" "digit_char 2 = CHR ''2''"
  "digit_char 3 = CHR ''3''" "digit_char 4 = CHR ''4''" "digit_char 5 = CHR ''5''"
  "digit_char 6 = CHR ''6''" "digit_char 7 = CHR ''7''" "digit_char 8 = CHR ''8''"
  "digit_char 9 = CHR ''9''"
  by code_simp+

lemma fmt2_100: "fmt2 100 = ''100.00''"
  by (simp add: fmt2_def round_half_even_def str_nat.simps digit_char_values)

lemma fmt2_85: "fmt2 85 = ''85.00''"
  by (simp add: fmt2_def round_half_even_def str_nat.simps digit_char_values)

lemma str_int_1: "str_int 1 = ''1''"
  by (simp add: str_int_def str_nat.simps digit_char_values)

subsection \<open>Snapshots with an error\<close>

text \<open>
  Claim C8. Processing a snapshot that carries an error adds exactly one to the
  consecutive-error counter of the product, sets last-error to the error and
  last-error-time to the time of processing, and sends and records nothing: the flag
  returned is \<open>False\<close> and the effects are unchanged, so no alert is emitted. Processing
  a snapshot that carries no error resets the counter to 0. (A snapshot carries an
  error when \<open>if data.error\<close> holds.)
\<close>

theorem error_counter:
  "(truthy_str (data_error data) \<longrightarrow>
      fst (process_product_update settings co now db product data) = False \<and>
      consecutive_errors (fst (snd (process_product_update settings co now db product data)))
        = consecutive_errors product + 1 \<and>
      last_error (fst (snd (process_product_update settings co now db product data)))
        = data_error data \<and>
      last_error_at (fst (snd (process_product_update settings co now db product data)))
        = Some now \<and>
      snd (snd (process_product_update settings co now db product data)) = db \<and>
      notified (snd (snd (process_product_update settings co now db product data)))
        = notified db)
   \<and> (\<not> truthy_str (data_error data) \<longrightarrow>
        consecutive_errors
          (fst (snd (process_product_update settings co now db product data))) = 0)"
proof (intro conjI impI)
  assume e: "truthy_str (data_error data)"
  then have eq: "process_product_update settings co now db product data =
    (False,
     product\<lparr>last_checked_at := Some now,
             consecutive_errors := consecutive_errors product + 1,
             last_error := data_error data, last_error_at := Some now\<rparr>, db)"
    by (simp add: process_product_update_def Let_def)
  show "fst (process_product_update settings co now db product data) = False"
    by (simp add: eq)
  show "consecutive_errors (fst (snd (process_product_update settings co now db product data)))
        = consecutive_errors product + 1"
    by (simp add: eq)
  show "last_error (fst (snd (process_product_update settings co now db product data)))
        = data_error data"
    by (simp add: eq)
  show "last_error_at (fst (snd (process_product_update settings co now db product data)))
        = Some now"
    by (simp add: eq)
  show "snd (snd (process_product_update settings co now db product data)) = db"
    by (simp add: eq)
  show "notified (snd (snd (process_product_update settings co now db product data)))
        = notified db"
    by (simp add: eq)
next
  assume "\<not> truthy_str (data_error data)"
  then obtain product3 db1 where "consecutive_errors product3 = 0"
    "fst (snd (process_product_update settings co now db product data))
       = fst (snd (price_update now data
                     (fst (snd (stock_update settings co now data product3 db))) db1))"
    using process_product_update_product by blast
  then show "consecutive_errors
          (fst (snd (process_product_update settings co now db product data))) = 0"
    by (simp add: price_update_consecutive_errors stock_update_consecutive_errors)
qed

theorem error_counter_witness:
  "truthy_str (data_error snapshot_timeout) \<and>
   consecutive_errors
     (fst (snd (process_product_update Settings_defaults basket_accepts 5000 Effects_empty
                  product_failing snapshot_timeout))) = 3 \<and>
   notified
     (snd (snd (process_product_update Settings_defaults basket_accepts 5000 Effects_empty
                  product_failing snapshot_timeout))) = [] \<and>
   \<not> truthy_str (data_error snapshot_in_stock_100) \<and>
   consecutive_errors
     (fst (snd (process_product_update Settings_defaults basket_accepts 5000 Effects_empty
                  product_failing snapshot_in_stock_100))) = 0"
proof -
  have e: "truthy_str (data_error snapshot_timeout)"
    by (simp add: snapshot_timeout_def truthy_str_def)
  have n: "\<not> truthy_str (data_error snapshot_in_stock_100)"
    by (simp add: snapshot_in_stock_100_def ProductData_new_def truthy_str_def)
  have c: "consecutive_errors product_failing + 1 = 3" "notified Effects_empty = []"
    by (simp_all add: product_failing_def Effects_empty_def)
  show ?thesis
    using e n c
      error_counter [of snapshot_timeout Settings_defaults basket_accepts 5000 Effects_empty
        product_failing]
      error_counter [of snapshot_in_stock_100 Settings_defaults basket_accepts 5000
        Effects_empty product_failing]
    by simp
qed

subsection \<open>Lowest, current and highest price\<close>

lemma price_update_order:
  assumes "lowest_price product = Some lo" "current_price product = Some cur"
    "highest_price product = Some hi" "lo \<le> cur" "cur \<le> hi"
  shows "\<exists>lo' cur' hi'.
    lowest_price (fst (snd (price_update now data product db))) = Some lo' \<and>
    current_price (fst (snd (price_update now data product db))) = Some cur' \<and>
    highest_price (fst (snd (price_update now data product db))) = Some hi' \<and>
    lo' \<le> cur' \<and> cur' \<le> hi'"
proof (cases "data_price data")
  case None
  with assms show ?thesis by (simp add: price_update_no_price)
next
  case (Some new_price)
  show ?thesis
  proof (cases "price_differs (current_price product) new_price")
    case False
    with Some assms show ?thesis by (simp add: price_update_same)
  next
    case True
    with Some assms show ?thesis
      by (auto simp: price_update_changed Let_def update_lowest_def update_highest_def)
  qed
qed

lemma price_update_first:
  assumes "lowest_price product = None" "current_price product = None"
    "highest_price product = None" "data_price data = Some price"
  shows "lowest_price (fst (snd (price_update now data product db))) = Some price \<and>
    current_price (fst (snd (price_update now data product db))) = Some price \<and>
    highest_price (fst (snd (price_update now data product db))) = Some price \<and>
    previous_price (fst (snd (price_update now data product db))) = None"
proof -
  have "price_differs (current_price product) price"
    using assms by (simp add: price_differs_def)
  with assms show ?thesis
    by (simp add: price_update_changed Let_def update_lowest_def update_highest_def)
qed

text \<open>
  Claim C9. When the lowest, the current and the highest price of a product are all known
  and ordered, lowest \<open>\<le>\<close> current \<open>\<le>\<close> highest, they are all known and ordered
  after processing any snapshot. When none of them is known, an error-free snapshot with
  a price sets all three to that price (and leaves no previous price).
\<close>

theorem price_order_preserved:
  "(lowest_price product = Some lo \<and> current_price product = Some cur \<and>
    highest_price product = Some hi \<and> lo \<le> cur \<and> cur \<le> hi \<longrightarrow>
      (\<exists>lo' cur' hi'.
         lowest_price (fst (snd (process_product_update settings co now db product data)))
           = Some lo' \<and>
         current_price (fst (snd (process_product_update settings co now db product data)))
           = Some cur' \<and>
         highest_price (fst (snd (process_product_update settings co now db product data)))
           = Some hi' \<and>
         lo' \<le> cur' \<and> cur' \<le> hi'))
   \<and> (lowest_price product = None \<and> current_price product = None \<and>
       highest_price product = None \<and> \<not> truthy_str (data_error data) \<and>
       data_price data = Some price \<longrightarrow>
         lowest_price (fst (snd (process_product_update settings co now db product data)))
           = Some price \<and>
         current_price (fst (snd (process_product_update settings co now db product data)))
           = Some price \<and>
         highest_price (fst (snd (process_product_update settings co now db product data)))
           = Some price \<and>
         previous_price (fst (snd (process_product_update settings co now db product data)))
           = None)"
proof (intro conjI impI)
  assume a: "lowest_price product = Some lo \<and> current_price product = Some cur \<and>
    highest_price product = Some hi \<and> lo \<le> cur \<and> cur \<le> hi"
  show "\<exists>lo' cur' hi'.
         lowest_price (fst (snd (process_product_update settings co now db product data)))
           = Some lo' \<and>
         current_price (fst (snd (process_product_update settings co now db product data)))
           = Some cur' \<and>
         highest_price (fst (snd (process_product_update settings co now db product data)))
           = Some hi' \<and>
         lo' \<le> cur' \<and> cur' \<le> hi'"
  proof (cases "truthy_str (data_error data)")
    case True
    then have "process_product_update settings co now db product data =
      (False,
       product\<lparr>last_checked_at := Some now,
               consecutive_errors := consecutive_errors product + 1,
               last_error := data_error data, last_error_at := Some now\<rparr>, db)"
      by (simp add: process_product_update_def Let_def)
    with a show ?thesis by simp
  next
    case False
    then obtain product3 db1 where p3: "current_price product3 = current_price product"
      "lowest_price product3 = lowest_price product"
      "highest_price product3 = highest_price product"
      and eq: "fst (snd (process_product_update settings co now db product data))
         = fst (snd (price_update now data
                       (fst (snd (stock_update settings co now data product3 db))) db1))"
      using process_product_update_product by blast
    show ?thesis
      unfolding eq
      by (rule price_update_order [of _ lo cur hi])
         (use a p3 in \<open>simp_all add: stock_update_prices\<close>)
  qed
next
  assume b: "lowest_price product = None \<and> current_price product = None \<and>
       highest_price product = None \<and> \<not> truthy_str (data_error data) \<and>
       data_price data = Some price"
  then obtain product3 db1 where p3: "current_price product3 = current_price product"
    "lowest_price product3 = lowest_price product"
    "highest_price product3 = highest_price product"
    and eq: "fst (snd (process_product_update settings co now db product data))
       = fst (snd (price_update now data
                     (fst (snd (stock_update settings co now data product3 db))) db1))"
    using process_product_update_product by blast
  have "lowest_price (fst (snd (price_update now data
                     (fst (snd (stock_update settings co now data product3 db))) db1)))
          = Some price \<and>
        current_price (fst (snd (price_update now data
                     (fst (snd (stock_update settings co now data product3 db))) db1)))
          = Some price \<and>
        highest_price (fst (snd (price_update now data
                     (fst (snd (stock_update settings co now data product3 db))) db1)))
          = Some price \<and>
        previous_price (fst (snd (price_update now data
                     (fst (snd (stock_update settings co now data product3 db))) db1)))
          = None"
    by (rule price_update_first) (use b p3 in \<open>simp_all add: stock_update_prices\<close>)
  then show "lowest_price (fst (snd (process_product_update settings co now db product data)))
           = Some price"
    and "current_price (fst (snd (process_product_update settings co now db product data)))
           = Some price"
    and "highest_price (fst (snd (process_product_update settings co now db product data)))
           = Some price"
    and "previous_price (fst (snd (process_product_update settings co now db product data)))
           = None"
    unfolding eq by simp_all
qed

theorem price_order_preserved_witness:
  "lowest_price product_scenario_B = Some 100 \<and> current_price product_scenario_B = Some 100 \<and>
   highest_price product_scenario_B = Some 120 \<and> (100::real) \<le> 100 \<and> (100::real) \<le> 120 \<and>
   (\<exists>lo' cur' hi'.
      lowest_price (fst (snd (process_product_update Settings_defaults basket_accepts 5000
                                Effects_empty product_scenario_B snapshot_85))) = Some lo' \<and>
      current_price (fst (snd (process_product_update Settings_defaults basket_accepts 5000
                                 Effects_empty product_scenario_B snapshot_85))) = Some cur' \<and>
      highest_price (fst (snd (process_product_update Settings_defaults basket_accepts 5000
                                 Effects_empty product_scenario_B snapshot_85))) = Some hi' \<and>
      lo' \<le> cur' \<and> cur' \<le> hi') \<and>
   lowest_price (Product_new ''123456'') = None \<and>
   current_price (Product_new ''123456'') = None \<and>
   highest_price (Product_new ''123456'') = None \<and>
   \<not> truthy_str (data_error snapshot_in_stock_100) \<and>
   data_price snapshot_in_stock_100 = Some 100 \<and>
   lowest_price (fst (snd (process_product_update Settings_defaults basket_accepts 5000
                             Effects_empty (Product_new ''123456'') snapshot_in_stock_100)))
     = Some 100 \<and>
   current_price (fst (snd (process_product_update Settings_defaults basket_accepts 5000
                              Effects_empty (Product_new ''123456'') snapshot_in_stock_100)))
     = Some 100 \<and>
   highest_price (fst (snd (process_product_update Settings_defaults basket_accepts 5000
                              Effects_empty (Product_new ''123456'') snapshot_in_stock_100)))
     = Some 100"
proof -
  have b: "lowest_price product_scenario_B = Some 100 \<and>
      current_price product_scenario_B = Some 100 \<and>
      highest_price product_scenario_B = Some 120 \<and> (100::real) \<le> 100 \<and> (100::real) \<le> 120"
    by (simp add: product_scenario_B_def)
  have n: "lowest_price (Product_new ''123456'') = None \<and>
      current_price (Product_new ''123456'') = None \<and>
      highest_price (Product_new ''123456'') = None \<and>
      \<not> truthy_str (data_error snapshot_in_stock_100) \<and>
      data_price snapshot_in_stock_100 = Some 100"
    by (simp add: Product_new_def snapshot_in_stock_100_def ProductData_new_def truthy_str_def)
  from b n
    price_order_preserved [of product_scenario_B 100 100 120 Settings_defaults basket_accepts
      5000 Effects_empty snapshot_85]
    price_order_preserved [of "Product_new ''123456''" _ _ _ Settings_defaults basket_accepts
      5000 Effects_empty snapshot_in_stock_100 100]
  show ?thesis by blast
qed

subsection \<open>Scenario B\<close>

text \<open>The price part in scenario B.\<close>

lemma price_update_scenario_B:
  assumes "current_price product = Some 100" "lowest_price product = Some 100"
    "highest_price product = Some 120" "target_price product = Some 90"
    "notify_lowest_ever product" "notify_price_drop product" "notify_target_price product"
    "data_price data = Some 85"
  shows "\<exists>product5.
    lowest_price product5 = Some 85 \<and> previous_price product5 = Some 100 \<and>
    current_price product5 = Some 85 \<and> highest_price product5 = Some 120 \<and>
    price_update now data product db =
      (True, product5,
       db\<lparr>price_history := price_history db @
             [\<lparr> ph_product_id = product_id product, ph_price = 85,
                ph_previous_price = Some 100, ph_recorded_at = now \<rparr>]\<rparr>,
       [(LOWEST_EVER, Some ''100.00'', Some ''85.00''),
        (PRICE_DROP, Some ''100.00'', Some ''85.00''),
        (TARGET_PRICE, None, Some ''85.00'')])"
proof -
  have "price_differs (current_price product) 85"
    using assms by (simp add: price_differs_def)
  then show ?thesis
    using assms
    by (simp add: price_update_changed Let_def lowest_alert_def drop_alert_def
        target_alert_def update_lowest_def update_highest_def fmt2_100 fmt2_85)
qed

text \<open>
  Claim C4. For a product with current price 100, lowest price 100, highest price 120 and
  target price 90, with the lowest-ever, price-drop and target-price notifications
  enabled, processing an error-free snapshot with price 85 emits exactly the alerts
  LOWEST_EVER (100.00 to 85.00), PRICE_DROP (100.00 to 85.00) and TARGET_PRICE (none to
  85.00), in that order, sets the lowest price to 85, the previous price to 100 and the
  current price to 85, and leaves the highest price at 120. The snapshot is one that
  does not bring the product from out of stock back in stock, the transition whose
  alerts are sent before those of the price.
\<close>

theorem scenario_B_alerts:
  "current_price product = Some 100 \<Longrightarrow> lowest_price product = Some 100 \<Longrightarrow>
   highest_price product = Some 120 \<Longrightarrow> target_price product = Some 90 \<Longrightarrow>
   notify_lowest_ever product \<Longrightarrow> notify_price_drop product \<Longrightarrow>
   notify_target_price product \<Longrightarrow>
   \<not> truthy_str (data_error data) \<Longrightarrow> data_price data = Some 85 \<Longrightarrow>
   \<not> (stock_status product = ''out_of_stock'' \<and> data_stock_status data = IN_STOCK) \<Longrightarrow>
   notified (snd (snd (process_product_update settings co now db product data)))
     = notified db @
       [(LOWEST_EVER, Some ''100.00'', Some ''85.00''),
        (PRICE_DROP, Some ''100.00'', Some ''85.00''),
        (TARGET_PRICE, None, Some ''85.00'')] \<and>
   lowest_price (fst (snd (process_product_update settings co now db product data)))
     = Some 85 \<and>
   previous_price (fst (snd (process_product_update settings co now db product data)))
     = Some 100 \<and>
   current_price (fst (snd (process_product_update settings co now db product data)))
     = Some 85 \<and>
   highest_price (fst (snd (process_product_update settings co now db product data)))
     = Some 120 \<and>
   fst (process_product_update settings co now db product data)"
proof -
  assume a: "current_price product = Some 100" "lowest_price product = Some 100"
    "highest_price product = Some 120" "target_price product = Some 90"
    "notify_lowest_ever product" "notify_price_drop product" "notify_target_price product"
    and ne: "\<not> truthy_str (data_error data)" and pr: "data_price data = Some 85"
    and nt: "\<not> (stock_status product = ''out_of_stock'' \<and> data_stock_status data = IN_STOCK)"
  from process_product_update_steps [OF ne, of product settings co now db]
  obtain product3 where p3: "product_id product3 = product_id product"
    "stock_status product3 = stock_status product"
    "current_price product3 = current_price product"
    "lowest_price product3 = lowest_price product"
    "highest_price product3 = highest_price product"
    "target_price product3 = target_price product"
    "notify_price_drop product3 = notify_price_drop product"
    "notify_target_price product3 = notify_target_price product"
    "notify_lowest_ever product3 = notify_lowest_ever product"
    and eq: "process_product_update settings co now db product data =
       (case stock_update settings co now data product3 db of
          (changed1, product4, db1, alerts1) \<Rightarrow>
            (case price_update now data product4 db1 of
               (changed2, product5, db2, alerts2) \<Rightarrow>
                 (changed1 \<or> changed2, product5,
                  send_alerts co product5 (alerts1 @ alerts2) db2)))"
    by blast
  obtain changed1 product4 db1 where
    su: "stock_update settings co now data product3 db = (changed1, product4, db1, [])"
    and p4: "current_price product4 = Some 100" "lowest_price product4 = Some 100"
      "highest_price product4 = Some 120" "target_price product4 = Some 90"
      "notify_lowest_ever product4" "notify_price_drop product4"
      "notify_target_price product4"
    and d1: "notified db1 = notified db"
  proof (cases "stock_status product3 = StockStatus_value (data_stock_status data)")
    case True
    from stock_update_unchanged [OF True, of settings co now db] a p3
    show ?thesis by (intro that [of False product3 db]) simp_all
  next
    case False
    from nt p3 have nt3: "\<not> (stock_status product3 = ''out_of_stock'' \<and>
        data_stock_status data = IN_STOCK)" by simp
    from stock_update_other [OF False nt3, of settings co now db] a p3
    show ?thesis
      by (intro that [of True
            "product3\<lparr>stock_status := StockStatus_value (data_stock_status data)\<rparr>"
            "db\<lparr>stock_history := stock_history db @
               [\<lparr> sh_product_id = product_id product3,
                  sh_status = StockStatus_value (data_stock_status data),
                  sh_previous_status = stock_status product3, sh_recorded_at = now \<rparr>]\<rparr>"])
         simp_all
  qed
  from price_update_scenario_B [OF p4 pr, of now db1]
  obtain product5 where p5: "lowest_price product5 = Some 85"
    "previous_price product5 = Some 100" "current_price product5 = Some 85"
    "highest_price product5 = Some 120"
    and pu: "price_update now data product4 db1 =
      (True, product5,
       db1\<lparr>price_history := price_history db1 @
             [\<lparr> ph_product_id = product_id product4, ph_price = 85,
                ph_previous_price = Some 100, ph_recorded_at = now \<rparr>]\<rparr>,
       [(LOWEST_EVER, Some ''100.00'', Some ''85.00''),
        (PRICE_DROP, Some ''100.00'', Some ''85.00''),
        (TARGET_PRICE, None, Some ''85.00'')])"
    by blast
  show ?thesis
    using p5 d1 by (simp add: eq su pu)
qed

theorem scenario_B_alerts_witness:
  "current_price product_scenario_B = Some 100 \<and> lowest_price product_scenario_B = Some 100 \<and>
   highest_price product_scenario_B = Some 120 \<and> target_price product_scenario_B = Some 90 \<and>
   notify_lowest_ever product_scenario_B \<and> notify_price_drop product_scenario_B \<and>
   notify_target_price product_scenario_B \<and>
   \<not> truthy_str (data_error snapshot_85) \<and> data_price snapshot_85 = Some 85 \<and>
   \<not> (stock_status product_scenario_B = ''out_of_stock'' \<and>
      data_stock_status snapshot_85 = IN_STOCK) \<and>
   notified (snd (snd (process_product_update Settings_defaults basket_accepts 5000
                         Effects_empty product_scenario_B snapshot_85)))
     = [(LOWEST_EVER, Some ''100.00'', Some ''85.00''),
        (PRICE_DROP, Some ''100.00'', Some ''85.00''),
        (TARGET_PRICE, None, Some ''85.00'')] \<and>
   lowest_price (fst (snd (process_product_update Settings_defaults basket_accepts 5000
                             Effects_empty product_scenario_B snapshot_85))) = Some 85"
proof -
  have h: "current_price product_scenario_B = Some 100"
    "lowest_price product_scenario_B = Some 100"
    "highest_price product_scenario_B = Some 120" "target_price product_scenario_B = Some 90"
    "notify_lowest_ever product_scenario_B" "notify_price_drop product_scenario_B"
    "notify_target_price product_scenario_B"
    "\<not> truthy_str (data_error snapshot_85)" "data_price snapshot_85 = Some 85"
    "\<not> (stock_status product_scenario_B = ''out_of_stock'' \<and>
       data_stock_status snapshot_85 = IN_STOCK)"
    by (simp_all add: product_scenario_B_def Product_new_def snapshot_85_def
        ProductData_new_def truthy_str_def)
  have e: "notified Effects_empty = []" by (simp add: Effects_empty_def)
  from h e scenario_B_alerts [OF h, of Settings_defaults basket_accepts 5000 Effects_empty]
  show ?thesis by simp
qed

subsection \<open>The basket\<close>

lemma handle_auto_basket_calls:
  "basket_calls (handle_auto_basket settings co product data db) =
     (if price_gate_skips product data then basket_calls db
      else basket_calls db @ [(item_number product, auto_add_quantity product)])"
  by (simp add: handle_auto_basket_def Let_def)

lemma handle_auto_basket_notified:
  "notified (handle_auto_basket settings co product data db) =
     notified db @
     (if \<not> price_gate_skips product data \<and>
         success (add_to_basket settings co (item_number product) (auto_add_quantity product))
      then [(ADDED_TO_BASKET, None, Some (''Qty: '' @ str_int (auto_add_quantity product)))]
      else [])"
  by (simp add: handle_auto_basket_def Let_def)

text \<open>
  Alert rows are added in the order in which the alerts are sent: the rows added are
  those of the alerts sent whose \<open>send_notification\<close> returned.
\<close>

lemma send_alert_rows:
  "\<exists>rows. alerts (send_alert co product intent db) = alerts db @ rows \<and>
     subseq (map alert_type rows) [AlertType_value (fst intent)]"
proof (cases intent)
  case (fields a_type old_val new_val)
  show ?thesis
  proof (cases "send_notification co product a_type old_val new_val")
    case None
    with fields have "alerts (send_alert co product intent db) = alerts db @ []"
      by (simp add: send_alert_def Let_def)
    then show ?thesis by (intro exI [of _ "[]"]) simp
  next
    case (Some results)
    with fields show ?thesis by (simp add: send_alert_def Let_def)
  qed
qed

lemma send_alerts_rows:
  "\<exists>rows. alerts (send_alerts co product intents db) = alerts db @ rows \<and>
     subseq (map alert_type rows) (map (\<lambda>a. AlertType_value (fst a)) intents)"
proof (induction intents arbitrary: db)
  case Nil
  show ?case by simp
next
  case (Cons intent intents)
  obtain rows1 where r1: "alerts (send_alert co product intent db) = alerts db @ rows1"
    "subseq (map alert_type rows1) [AlertType_value (fst intent)]"
    using send_alert_rows by blast
  obtain rows2 where r2:
    "alerts (send_alerts co product intents (send_alert co product intent db))
       = alerts (send_alert co product intent db) @ rows2"
    "subseq (map alert_type rows2) (map (\<lambda>a. AlertType_value (fst a)) intents)"
    using Cons.IH by blast
  have "subseq (map alert_type rows1 @ map alert_type rows2)
      ([AlertType_value (fst intent)] @ map (\<lambda>a. AlertType_value (fst a)) intents)"
    using r1(2) r2(2) by (rule list_emb_append_mono)
  with r1(1) r2(1) show ?case
    by (intro exI [of _ "rows1 @ rows2"]) simp
qed

lemma handle_auto_basket_rows:
  "\<exists>rows. alerts (handle_auto_basket settings co product data db) = alerts db @ rows \<and>
     subseq (map alert_type rows)
       (map (\<lambda>a. AlertType_value (fst a))
          (if \<not> price_gate_skips product data \<and>
              success (add_to_basket settings co (item_number product)
                         (auto_add_quantity product))
           then [(ADDED_TO_BASKET, None, Some (''Qty: '' @ str_int (auto_add_quantity product)))]
           else []))"
proof (cases "\<not> price_gate_skips product data \<and>
    success (add_to_basket settings co (item_number product) (auto_add_quantity product))")
  case True
  obtain rows where
    "alerts (send_alert co product
       (ADDED_TO_BASKET, None, Some (''Qty: '' @ str_int (auto_add_quantity product)))
       (db\<lparr>basket_calls := basket_calls db @
              [(item_number product, auto_add_quantity product)]\<rparr>))
     = alerts (db\<lparr>basket_calls := basket_calls db @
              [(item_number product, auto_add_quantity product)]\<rparr>) @ rows"
    "subseq (map alert_type rows)
       [AlertType_value (fst (ADDED_TO_BASKET, None :: string option,
          Some (''Qty: '' @ str_int (auto_add_quantity product))))]"
    using send_alert_rows by blast
  with True show ?thesis
    by (intro exI [of _ rows]) (simp add: handle_auto_basket_def Let_def)
next
  case False
  then have "alerts (handle_auto_basket settings co product data db) = alerts db @ []"
    by (auto simp: handle_auto_basket_def Let_def)
  with False show ?thesis by (intro exI [of _ "[]"]) simp
qed

lemma price_gate_skips_cong:
  "auto_add_max_price p = auto_add_max_price q \<Longrightarrow>
     price_gate_skips p data = price_gate_skips q data"
  by (simp add: price_gate_skips_def)

subsection \<open>Back in stock with auto-add-to-basket\<close>

text \<open>
  Claim C6, amended. When a snapshot without error takes a product from out of stock to
  in stock, with auto-add-to-basket and the back-in-stock notification set, the alerts
  are sent in this order: ADDED_TO_BASKET, if the price gate lets the attempt through
  and the basket reports success; then BACK_IN_STOCK; then the alerts of the price. So
  the ADDED_TO_BASKET alert is sent before the BACK_IN_STOCK alert, not after it, and
  no alert is sent for a failed or skipped attempt. Alert rows are recorded in the
  order of sending, one for each alert whose notification call returned.
\<close>

theorem basket_alert_before_back_in_stock:
  "\<not> truthy_str (data_error data) \<Longrightarrow> stock_status product = ''out_of_stock'' \<Longrightarrow>
   data_stock_status data = IN_STOCK \<Longrightarrow> auto_add_to_basket product \<Longrightarrow>
   notify_back_in_stock product \<Longrightarrow>
   \<exists>rest rows.
     (\<forall>a\<in>set rest. fst a = LOWEST_EVER \<or> fst a = PRICE_DROP \<or> fst a = TARGET_PRICE) \<and>
     notified (snd (snd (process_product_update settings co now db product data)))
       = notified db @
         (if \<not> price_gate_skips product data \<and>
             success (add_to_basket settings co (item_number product)
                        (auto_add_quantity product))
          then [(ADDED_TO_BASKET, None, Some (''Qty: '' @ str_int (auto_add_quantity product)))]
          else []) @
         [(BACK_IN_STOCK, Some ''out_of_stock'', Some ''in_stock'')] @ rest \<and>
     alerts (snd (snd (process_product_update settings co now db product data)))
       = alerts db @ rows \<and>
     subseq (map alert_type rows)
       (map (\<lambda>a. AlertType_value (fst a))
          (drop (length (notified db))
             (notified (snd (snd (process_product_update settings co now db product
                                    data))))))"
proof -
  assume ne: "\<not> truthy_str (data_error data)"
    and out: "stock_status product = ''out_of_stock''"
    and ins: "data_stock_status data = IN_STOCK"
    and auto: "auto_add_to_basket product" and nb: "notify_back_in_stock product"
  from process_product_update_steps [OF ne, of product settings co now db]
  obtain product3 where p3: "item_number product3 = item_number product"
    "stock_status product3 = stock_status product"
    "notify_back_in_stock product3 = notify_back_in_stock product"
    "auto_add_to_basket product3 = auto_add_to_basket product"
    "auto_add_quantity product3 = auto_add_quantity product"
    "auto_add_max_price product3 = auto_add_max_price product"
    and eq: "process_product_update settings co now db product data =
       (case stock_update settings co now data product3 db of
          (changed1, product4, db1, alerts1) \<Rightarrow>
            (case price_update now data product4 db1 of
               (changed2, product5, db2, alerts2) \<Rightarrow>
                 (changed1 \<or> changed2, product5,
                  send_alerts co product5 (alerts1 @ alerts2) db2)))"
    by blast
  define product4 where
    "product4 = product3\<lparr>stock_status := ''in_stock'', last_in_stock_at := Some now\<rparr>"
  define db0 where "db0 = db\<lparr>stock_history := stock_history db @
      [\<lparr> sh_product_id = product_id product3, sh_status = ''in_stock'',
         sh_previous_status = ''out_of_stock'', sh_recorded_at = now \<rparr>]\<rparr>"
  define db1 where "db1 = handle_auto_basket settings co product4 data db0"
  define basket where "basket =
    (if \<not> price_gate_skips product data \<and>
        success (add_to_basket settings co (item_number product) (auto_add_quantity product))
     then [(ADDED_TO_BASKET, None :: string option,
            Some (''Qty: '' @ str_int (auto_add_quantity product)))]
     else [])"
  define back_alert where
    "back_alert = [(BACK_IN_STOCK, Some ''out_of_stock'', Some ''in_stock'')]"
  have su: "stock_update settings co now data product3 db = (True, product4, db1, back_alert)"
    using stock_update_back_in_stock [of product3 data settings co now db] p3 out ins auto nb
    by (simp add: product4_def db0_def db1_def back_alert_def)
  have gate: "price_gate_skips product4 data = price_gate_skips product data"
    by (rule price_gate_skips_cong) (simp add: product4_def p3)
  have f4: "item_number product4 = item_number product"
    "auto_add_quantity product4 = auto_add_quantity product"
    by (simp_all add: product4_def p3)
  have n1: "notified db1 = notified db @ basket"
    unfolding db1_def handle_auto_basket_notified gate f4 basket_def
    by (simp add: db0_def)
  obtain rows1 where r1: "alerts db1 = alerts db @ rows1"
    "subseq (map alert_type rows1) (map (\<lambda>a. AlertType_value (fst a)) basket)"
  proof -
    from handle_auto_basket_rows [of settings co product4 data db0]
    obtain rows where "alerts db1 = alerts db0 @ rows"
      "subseq (map alert_type rows) (map (\<lambda>a. AlertType_value (fst a)) basket)"
      unfolding db1_def gate f4 basket_def by blast
    then show ?thesis by (intro that [of rows]) (simp_all add: db0_def)
  qed
  obtain changed2 product5 db2 rest where
    pu: "price_update now data product4 db1 = (changed2, product5, db2, rest)"
    by (metis prod_cases4)
  have d2: "notified db2 = notified db1" "alerts db2 = alerts db1"
    using price_update_db [of now data product4 db1] by (simp_all add: pu)
  have types: "\<forall>a\<in>set rest. fst a = LOWEST_EVER \<or> fst a = PRICE_DROP \<or> fst a = TARGET_PRICE"
    using price_update_alert_types [of now data product4 db1] by (simp add: pu)
  have res: "snd (snd (process_product_update settings co now db product data))
      = send_alerts co product5 (back_alert @ rest) db2"
    by (simp add: eq su pu)
  have n: "notified (snd (snd (process_product_update settings co now db product data)))
      = notified db @ basket @ back_alert @ rest"
    by (simp add: res d2 n1)
  obtain rows2 where r2: "alerts (send_alerts co product5 (back_alert @ rest) db2)
      = alerts db2 @ rows2"
    "subseq (map alert_type rows2) (map (\<lambda>a. AlertType_value (fst a)) (back_alert @ rest))"
    using send_alerts_rows by blast
  have a: "alerts (snd (snd (process_product_update settings co now db product data)))
      = alerts db @ (rows1 @ rows2)"
    by (simp add: res r2(1) d2 r1(1))
  have "subseq (map alert_type rows1 @ map alert_type rows2)
      (map (\<lambda>a. AlertType_value (fst a)) basket
         @ map (\<lambda>a. AlertType_value (fst a)) (back_alert @ rest))"
    using r1(2) r2(2) by (rule list_emb_append_mono)
  then have s: "subseq (map alert_type (rows1 @ rows2))
      (map (\<lambda>a. AlertType_value (fst a))
         (drop (length (notified db))
            (notified (snd (snd (process_product_update settings co now db product
                                   data))))))"
    by (simp add: n)
  from types n a s show ?thesis
    unfolding basket_def back_alert_def by blast
qed

lemma fixture_basket_facts:
  "\<not> truthy_str (data_error snapshot_in_stock_no_price)"
  "stock_status product_out_of_stock = ''out_of_stock''"
  "data_stock_status snapshot_in_stock_no_price = IN_STOCK"
  "auto_add_to_basket product_out_of_stock"
  "notify_back_in_stock product_out_of_stock"
  "\<not> price_gate_skips product_out_of_stock snapshot_in_stock_no_price"
  "item_number product_out_of_stock = ''123456''"
  "auto_add_quantity product_out_of_stock = 1"
  by (simp_all add: snapshot_in_stock_no_price_def ProductData_new_def truthy_str_def
      product_out_of_stock_def Product_new_def price_gate_skips_def truthy_num_def)

lemma fixture_basket_success:
  "success (add_to_basket Settings_basket_enabled basket_accepts ''123456'' 1)"
  "\<not> success (add_to_basket Settings_basket_enabled basket_refuses ''123456'' 1)"
  by (simp_all add: add_to_basket_def Settings_basket_enabled_def Settings_defaults_def
      basket_accepts_def basket_refuses_def)

text \<open>
  Claim C6 as stated puts the ADDED_TO_BASKET alert after the BACK_IN_STOCK alert. The
  BACK_IN_STOCK alert waits in \<open>alerts_to_send\<close> until the end of the function, while
  \<open>_handle_auto_basket\<close> sends its alert at once: the ADDED_TO_BASKET alert is sent,
  and recorded, first.
\<close>

theorem basket_alert_first_counterexample:
  "notified (snd (snd (process_product_update Settings_basket_enabled basket_accepts 5000
                         Effects_empty product_out_of_stock snapshot_in_stock_no_price)))
     = [(ADDED_TO_BASKET, None, Some ''Qty: 1''),
        (BACK_IN_STOCK, Some ''out_of_stock'', Some ''in_stock'')] \<and>
   map alert_type
     (alerts (snd (snd (process_product_update Settings_basket_enabled basket_accepts 5000
                          Effects_empty product_out_of_stock snapshot_in_stock_no_price))))
     = [''added_to_basket'', ''back_in_stock'']"
  by (simp add: process_product_update_def Let_def stock_update_def handle_auto_basket_def
      price_update_def send_alert_def price_gate_skips_def truthy_num_def add_to_basket_def
      Settings_basket_enabled_def Settings_defaults_def str_opt_def
      str_int_1 basket_accepts_def Effects_empty_def
      snapshot_in_stock_no_price_def ProductData_new_def truthy_str_def
      product_out_of_stock_def Product_new_def)

theorem basket_alert_before_back_in_stock_witness:
  "\<not> truthy_str (data_error snapshot_in_stock_no_price) \<and>
   stock_status product_out_of_stock = ''out_of_stock'' \<and>
   data_stock_status snapshot_in_stock_no_price = IN_STOCK \<and>
   auto_add_to_basket product_out_of_stock \<and> notify_back_in_stock product_out_of_stock \<and>
   (\<exists>rest.
      notified (snd (snd (process_product_update Settings_basket_enabled basket_accepts 5000
                            Effects_empty product_out_of_stock snapshot_in_stock_no_price)))
        = (ADDED_TO_BASKET, None, Some ''Qty: 1'')
          # (BACK_IN_STOCK, Some ''out_of_stock'', Some ''in_stock'') # rest) \<and>
   (\<exists>rest.
      notified (snd (snd (process_product_update Settings_basket_enabled basket_refuses 5000
                            Effects_empty product_out_of_stock snapshot_in_stock_no_price)))
        = (BACK_IN_STOCK, Some ''out_of_stock'', Some ''in_stock'') # rest)"
proof -
  note h = fixture_basket_facts(1-5)
  have e: "notified Effects_empty = []" by (simp add: Effects_empty_def)
  from basket_alert_before_back_in_stock [OF h, of Settings_basket_enabled basket_accepts 5000
      Effects_empty]
  have a: "\<exists>rest.
      notified (snd (snd (process_product_update Settings_basket_enabled basket_accepts 5000
                            Effects_empty product_out_of_stock snapshot_in_stock_no_price)))
        = (ADDED_TO_BASKET, None, Some ''Qty: 1'')
          # (BACK_IN_STOCK, Some ''out_of_stock'', Some ''in_stock'') # rest"
    by (auto simp: fixture_basket_facts fixture_basket_success str_int_1 e)
  from basket_alert_before_back_in_stock [OF h, of Settings_basket_enabled basket_refuses 5000
      Effects_empty]
  have b: "\<exists>rest.
      notified (snd (snd (process_product_update Settings_basket_enabled basket_refuses 5000
                            Effects_empty product_out_of_stock snapshot_in_stock_no_price)))
        = (BACK_IN_STOCK, Some ''out_of_stock'', Some ''in_stock'') # rest"
    by (auto simp: fixture_basket_facts fixture_basket_success e)
  from h a b show ?thesis by blast
qed

subsection \<open>The max-price gate\<close>

lemma price_gate_skips_iff:
  "price_gate_skips product data \<longleftrightarrow>
     (\<exists>m p. auto_add_max_price product = Some m \<and> m \<noteq> 0 \<and>
            data_price data = Some p \<and> p \<noteq> 0 \<and> p > m)"
  by (auto simp: price_gate_skips_def truthy_num_def split: option.splits)

lemma process_product_update_basket_calls:
  assumes ne: "\<not> truthy_str (data_error data)"
    and out: "stock_status product = ''out_of_stock''"
    and ins: "data_stock_status data = IN_STOCK"
    and auto: "auto_add_to_basket product"
  shows "basket_calls (snd (snd (process_product_update settings co now db product data)))
     = (if price_gate_skips product data then basket_calls db
        else basket_calls db @ [(item_number product, auto_add_quantity product)])"
proof -
  from process_product_update_steps [OF ne, of product settings co now db]
  obtain product3 where p3: "item_number product3 = item_number product"
    "stock_status product3 = stock_status product"
    "auto_add_to_basket product3 = auto_add_to_basket product"
    "auto_add_quantity product3 = auto_add_quantity product"
    "auto_add_max_price product3 = auto_add_max_price product"
    and eq: "process_product_update settings co now db product data =
       (case stock_update settings co now data product3 db of
          (changed1, product4, db1, alerts1) \<Rightarrow>
            (case price_update now data product4 db1 of
               (changed2, product5, db2, alerts2) \<Rightarrow>
                 (changed1 \<or> changed2, product5,
                  send_alerts co product5 (alerts1 @ alerts2) db2)))"
    by blast
  define product4 where
    "product4 = product3\<lparr>stock_status := ''in_stock'', last_in_stock_at := Some now\<rparr>"
  define db0 where "db0 = db\<lparr>stock_history := stock_history db @
      [\<lparr> sh_product_id = product_id product3, sh_status = ''in_stock'',
         sh_previous_status = ''out_of_stock'', sh_recorded_at = now \<rparr>]\<rparr>"
  define db1 where "db1 = handle_auto_basket settings co product4 data db0"
  obtain alerts1 where
    su: "stock_update settings co now data product3 db = (True, product4, db1, alerts1)"
    using stock_update_back_in_stock [of product3 data settings co now db] p3 out ins auto
    by (simp add: product4_def db0_def db1_def)
  have gate: "price_gate_skips product4 data = price_gate_skips product data"
    by (rule price_gate_skips_cong) (simp add: product4_def p3)
  have c1: "basket_calls db1
     = (if price_gate_skips product data then basket_calls db
        else basket_calls db @ [(item_number product, auto_add_quantity product)])"
    unfolding db1_def handle_auto_basket_calls gate
    by (simp add: product4_def p3 db0_def)
  obtain changed2 product5 db2 alerts2 where
    pu: "price_update now data product4 db1 = (changed2, product5, db2, alerts2)"
    by (metis prod_cases4)
  have c2: "basket_calls db2 = basket_calls db1"
    using price_update_db [of now data product4 db1] by (simp add: pu)
  show ?thesis
    by (simp add: eq su pu c2 c1)
qed

text \<open>
  Claim C10. The max-price gate of auto-add-to-basket skips the attempt exactly when a
  maximum price is configured (set and not zero), the snapshot carries a price (set and
  not zero) and that price exceeds the maximum. The stored current price of the product
  plays no part. When the snapshot carries no price (\<open>None\<close> or 0), the gate lets the
  attempt through whatever the maximum: \<open>add_to_basket\<close> is called, in
  \<open>_handle_auto_basket\<close> and so in \<open>_process_product_update\<close> on the transition from
  out of stock to in stock.
\<close>

theorem basket_gate_uses_snapshot_price:
  "(price_gate_skips product data \<longleftrightarrow>
      (\<exists>m p. auto_add_max_price product = Some m \<and> m \<noteq> 0 \<and>
             data_price data = Some p \<and> p \<noteq> 0 \<and> p > m))
   \<and> price_gate_skips (product\<lparr>current_price := stored\<rparr>) data
       = price_gate_skips product data
   \<and> basket_calls (handle_auto_basket settings co product data db)
       = (if price_gate_skips product data then basket_calls db
          else basket_calls db @ [(item_number product, auto_add_quantity product)])
   \<and> (data_price data = None \<or> data_price data = Some 0 \<longrightarrow>
        basket_calls (handle_auto_basket settings co product data db)
          = basket_calls db @ [(item_number product, auto_add_quantity product)])
   \<and> (\<not> truthy_str (data_error data) \<and> stock_status product = ''out_of_stock'' \<and>
       data_stock_status data = IN_STOCK \<and> auto_add_to_basket product \<longrightarrow>
        basket_calls (snd (snd (process_product_update settings co now db product data)))
          = (if price_gate_skips product data then basket_calls db
             else basket_calls db @ [(item_number product, auto_add_quantity product)]))"
proof (intro conjI impI)
  show "price_gate_skips product data \<longleftrightarrow>
      (\<exists>m p. auto_add_max_price product = Some m \<and> m \<noteq> 0 \<and>
             data_price data = Some p \<and> p \<noteq> 0 \<and> p > m)"
    by (rule price_gate_skips_iff)
  show "price_gate_skips (product\<lparr>current_price := stored\<rparr>) data
       = price_gate_skips product data"
    by (rule price_gate_skips_cong) simp
  show "basket_calls (handle_auto_basket settings co product data db)
       = (if price_gate_skips product data then basket_calls db
          else basket_calls db @ [(item_number product, auto_add_quantity product)])"
    by (rule handle_auto_basket_calls)
next
  assume "data_price data = None \<or> data_price data = Some 0"
  then have "\<not> price_gate_skips product data"
    by (auto simp: price_gate_skips_iff)
  then show "basket_calls (handle_auto_basket settings co product data db)
          = basket_calls db @ [(item_number product, auto_add_quantity product)]"
    by (simp add: handle_auto_basket_calls)
next
  assume "\<not> truthy_str (data_error data) \<and> stock_status product = ''out_of_stock'' \<and>
       data_stock_status data = IN_STOCK \<and> auto_add_to_basket product"
  then show "basket_calls (snd (snd (process_product_update settings co now db product
                                          data)))
          = (if price_gate_skips product data then basket_calls db
             else basket_calls db @ [(item_number product, auto_add_quantity product)])"
    by (simp add: process_product_update_basket_calls)
qed

theorem basket_gate_uses_snapshot_price_witness:
  "auto_add_max_price product_gate_50 = Some 50 \<and> current_price product_gate_50 = Some 60 \<and>
   \<not> truthy_str (data_error snapshot_in_stock_no_price) \<and>
   stock_status product_gate_50 = ''out_of_stock'' \<and>
   data_stock_status snapshot_in_stock_no_price = IN_STOCK \<and>
   auto_add_to_basket product_gate_50 \<and>
   (data_price snapshot_in_stock_no_price = None \<or>
    data_price snapshot_in_stock_no_price = Some 0) \<and>
   basket_calls (handle_auto_basket Settings_basket_enabled basket_accepts product_gate_50
                   snapshot_in_stock_no_price Effects_empty) = [(''123456'', 1)] \<and>
   basket_calls (snd (snd (process_product_update Settings_basket_enabled basket_accepts 5000
                             Effects_empty product_gate_50 snapshot_in_stock_no_price)))
     = [(''123456'', 1)] \<and>
   \<not> truthy_str (data_error snapshot_in_stock_60) \<and>
   data_stock_status snapshot_in_stock_60 = IN_STOCK \<and>
   basket_calls (snd (snd (process_product_update Settings_basket_enabled basket_accepts 5000
                             Effects_empty (product_gate_50\<lparr>current_price := Some 10\<rparr>)
                             snapshot_in_stock_60)))
     = []"
proof -
  have f: "auto_add_max_price product_gate_50 = Some 50 \<and>
      current_price product_gate_50 = Some 60"
    by (simp add: product_gate_50_def)
  have h: "\<not> truthy_str (data_error snapshot_in_stock_no_price) \<and>
      stock_status product_gate_50 = ''out_of_stock'' \<and>
      data_stock_status snapshot_in_stock_no_price = IN_STOCK \<and>
      auto_add_to_basket product_gate_50"
    by (simp add: product_gate_50_def product_out_of_stock_def Product_new_def
        snapshot_in_stock_no_price_def ProductData_new_def truthy_str_def)
  have np: "data_price snapshot_in_stock_no_price = None \<or>
      data_price snapshot_in_stock_no_price = Some 0"
    by (simp add: snapshot_in_stock_no_price_def ProductData_new_def)
  have h60: "\<not> truthy_str (data_error snapshot_in_stock_60) \<and>
      stock_status (product_gate_50\<lparr>current_price := Some 10\<rparr>) = ''out_of_stock'' \<and>
      data_stock_status snapshot_in_stock_60 = IN_STOCK \<and>
      auto_add_to_basket (product_gate_50\<lparr>current_price := Some 10\<rparr>)"
    by (simp add: product_gate_50_def product_out_of_stock_def Product_new_def
        snapshot_in_stock_60_def ProductData_new_def truthy_str_def)
  have g: "\<not> price_gate_skips product_gate_50 snapshot_in_stock_no_price"
    "price_gate_skips (product_gate_50\<lparr>current_price := Some 10\<rparr>) snapshot_in_stock_60"
    by (simp_all add: price_gate_skips_def truthy_num_def product_gate_50_def
        snapshot_in_stock_no_price_def snapshot_in_stock_60_def ProductData_new_def)
  have v: "basket_calls Effects_empty = []"
    "item_number product_gate_50 = ''123456''" "auto_add_quantity product_gate_50 = 1"
    by (simp_all add: product_gate_50_def product_out_of_stock_def Product_new_def
        Effects_empty_def)
  note t1 = basket_gate_uses_snapshot_price [of product_gate_50 snapshot_in_stock_no_price
      "Some 60" Settings_basket_enabled basket_accepts Effects_empty 5000]
  note t2 = basket_gate_uses_snapshot_price [of "product_gate_50\<lparr>current_price := Some 10\<rparr>"
      snapshot_in_stock_60 "Some 10" Settings_basket_enabled basket_accepts Effects_empty 5000]
  from t1 np have "basket_calls (handle_auto_basket Settings_basket_enabled basket_accepts
      product_gate_50 snapshot_in_stock_no_price Effects_empty)
      = basket_calls Effects_empty @
        [(item_number product_gate_50, auto_add_quantity product_gate_50)]"
    by blast
  then have a: "basket_calls (handle_auto_basket Settings_basket_enabled basket_accepts
      product_gate_50 snapshot_in_stock_no_price Effects_empty) = [(''123456'', 1)]"
    by (simp add: v)
  from t1 h have "basket_calls (snd (snd (process_product_update
      Settings_basket_enabled basket_accepts 5000 Effects_empty product_gate_50
      snapshot_in_stock_no_price)))
      = (if price_gate_skips product_gate_50 snapshot_in_stock_no_price
         then basket_calls Effects_empty
         else basket_calls Effects_empty @
           [(item_number product_gate_50, auto_add_quantity product_gate_50)])"
    by blast
  then have b: "basket_calls (snd (snd (process_product_update
      Settings_basket_enabled basket_accepts 5000 Effects_empty product_gate_50
      snapshot_in_stock_no_price))) = [(''123456'', 1)]"
    by (simp add: v g)
  from t2 h60 have "basket_calls (snd (snd (process_product_update
      Settings_basket_enabled basket_accepts 5000 Effects_empty
      (product_gate_50\<lparr>current_price := Some 10\<rparr>) snapshot_in_stock_60)))
      = (if price_gate_skips (product_gate_50\<lparr>current_price := Some 10\<rparr>)
              snapshot_in_stock_60
         then basket_calls Effects_empty
         else basket_calls Effects_empty @
           [(item_number (product_gate_50\<lparr>current_price := Some 10\<rparr>),
             auto_add_quantity (product_gate_50\<lparr>current_price := Some 10\<rparr>))])"
    by blast
  then have c: "basket_calls (snd (snd (process_product_update
      Settings_basket_enabled basket_accepts 5000 Effects_empty
      (product_gate_50\<lparr>current_price := Some 10\<rparr>) snapshot_in_stock_60))) = []"
    by (simp only: g if_True v)
  from f h np a b c h60 show ?thesis by blast
qed

end
